theory Spec2Isabelle
  imports Main
begin

section \<open>CBuilder: the project model and its C++ generator\<close>

text \<open>
  A shallow embedding of \<^verbatim>\<open>cbuilder.py\<close>. Python strings are modelled as
  \<^typ>\<open>string\<close>, read as the UTF-8 bytes of the text: every operation of the program
  on strings that is modelled here (replacing a space or a line feed, deleting the
  characters outside an ASCII class, concatenation) acts on ASCII characters only, and no
  byte of a multi-byte UTF-8 sequence is an ASCII character, so the bytes of the Python
  result are the result on the bytes.
\<close>

subsection \<open>Characters and string helpers\<close>

definition NL :: char where
  "NL = CHR 0x0A"

definition TAB :: char where
  "TAB = CHR 0x09"

definition DQUOTE :: char where
  "DQUOTE = CHR 0x22"

text \<open>\<^verbatim>\<open>s.replace(old, new)\<close> for a pattern \<open>old\<close> of one character.\<close>

fun replace :: "char \<Rightarrow> string \<Rightarrow> string \<Rightarrow> string" where
  "replace old new [] = []"
| "replace old new (c # cs) =
     (if c = old then new @ replace old new cs else c # replace old new cs)"

text \<open>The character class \<^verbatim>\<open>[a-zA-Z0-9_]\<close> of the regular expression.\<close>

definition in_class :: "char \<Rightarrow> bool" where
  "in_class c =
     (let n = (of_char c :: nat)
      in (97 \<le> n \<and> n \<le> 122) \<or> (65 \<le> n \<and> n \<le> 90) \<or> (48 \<le> n \<and> n \<le> 57) \<or> c = CHR ''_'')"

text \<open>\<^verbatim>\<open>re.sub(r'[^a-zA-Z0-9_]', '', s)\<close>: delete every character outside the class.\<close>

fun re_sub_non_class :: "string \<Rightarrow> string" where
  "re_sub_non_class [] = []"
| "re_sub_non_class (c # cs) =
     (if in_class c then c # re_sub_non_class cs else re_sub_non_class cs)"

text \<open>
  The two lines every menu handler applies to a name read from the prompt
  (\<^verbatim>\<open>show_module_controls\<close>, \<^verbatim>\<open>show_project_controls\<close>):
  \<^verbatim>\<open>name = Prompt.ask('').replace(' ', '_')\<close>, then
  \<^verbatim>\<open>name = re.sub(r'[^a-zA-Z0-9_]', '', name)\<close>.
\<close>

definition sanitize :: "string \<Rightarrow> string" where
  "sanitize raw = re_sub_non_class (replace (CHR '' '') ''_'' raw)"

subsection \<open>The entity model\<close>

record CFunction =
  fn_name :: string
  description :: "string option"

record CClass =
  class_name :: string
  public_functions :: "CFunction list"
  private_functions :: "CFunction list"
  public_variables :: "string list"
  private_variables :: "string list"

record CModule =
  mod_name :: string
  classes :: "CClass list"

record CProject =
  project_name :: string
  cppnamespace :: string
  modules :: "CModule list"

definition CFunction_init :: "string \<Rightarrow> string option \<Rightarrow> CFunction" where
  "CFunction_init name descr = \<lparr>fn_name = name, description = descr\<rparr>"

definition CClass_init :: "string \<Rightarrow> CClass" where
  "CClass_init name =
     \<lparr>class_name = name, public_functions = [], private_functions = [],
      public_variables = [], private_variables = []\<rparr>"

definition CModule_init :: "string \<Rightarrow> CModule" where
  "CModule_init name = \<lparr>mod_name = name, classes = []\<rparr>"

definition CProject_init :: "string \<Rightarrow> string \<Rightarrow> CProject" where
  "CProject_init name ns =
     \<lparr>project_name = name,
      cppnamespace = (if 0 < length ns then ns else name),
      modules = []\<rparr>"

subsection \<open>Lookup and removal\<close>

datatype pyerror = ValueError

text \<open>
  \<^verbatim>\<open>for mod in self.modules: if mod.name == name: return mod\<close>, then
  \<^verbatim>\<open>return None\<close>.
\<close>

fun get_module_loop :: "CModule list \<Rightarrow> string \<Rightarrow> CModule option" where
  "get_module_loop [] name = None"
| "get_module_loop (m # ms) name =
     (if mod_name m = name then Some m else get_module_loop ms name)"

definition get_module :: "CProject \<Rightarrow> string \<Rightarrow> CModule option" where
  "get_module self name = get_module_loop (modules self) name"

fun get_class_loop :: "CClass list \<Rightarrow> string \<Rightarrow> CClass option" where
  "get_class_loop [] name = None"
| "get_class_loop (c # cs) name =
     (if class_name c = name then Some c else get_class_loop cs name)"

definition get_class :: "CModule \<Rightarrow> string \<Rightarrow> CClass option" where
  "get_class self name = get_class_loop (classes self) name"

text \<open>
  Python's \<^verbatim>\<open>list.remove(x)\<close>: delete the first item equal to \<open>x\<close>, raise
  \<^verbatim>\<open>ValueError\<close> when there is none. The classes of the program define no
  \<^verbatim>\<open>__eq__\<close>, so Python compares the objects by identity where the model compares
  the records by value; the loops below only ever remove the first item with a given name,
  which is the first item equal to it under either reading.
\<close>

fun list_remove :: "'a \<Rightarrow> 'a list \<Rightarrow> pyerror + 'a list" where
  "list_remove x [] = Inl ValueError"
| "list_remove x (y # ys) =
     (if y = x then Inr ys
      else (case list_remove x ys of Inl e \<Rightarrow> Inl e | Inr zs \<Rightarrow> Inr (y # zs)))"

text \<open>
  \<^verbatim>\<open>for mod in self.modules: if mod.name == name: self.modules.remove(mod); break\<close>.
  The first argument is what is left to iterate over, the third the whole list
  \<^verbatim>\<open>self.modules\<close>, which is returned as the loop leaves it.
\<close>

fun remove_module_loop :: "CModule list \<Rightarrow> string \<Rightarrow> CModule list \<Rightarrow> pyerror + CModule list" where
  "remove_module_loop [] name all = Inr all"
| "remove_module_loop (m # ms) name all =
     (if mod_name m = name then list_remove m all else remove_module_loop ms name all)"

definition remove_module :: "CProject \<Rightarrow> string \<Rightarrow> pyerror + CProject" where
  "remove_module self name =
     (case remove_module_loop (modules self) name (modules self) of
        Inl e \<Rightarrow> Inl e
      | Inr ms \<Rightarrow> Inr (self\<lparr>modules := ms\<rparr>))"

fun remove_class_loop :: "CClass list \<Rightarrow> string \<Rightarrow> CClass list \<Rightarrow> pyerror + CClass list" where
  "remove_class_loop [] name all = Inr all"
| "remove_class_loop (c # cs) name all =
     (if class_name c = name then list_remove c all else remove_class_loop cs name all)"

definition remove_class :: "CModule \<Rightarrow> string \<Rightarrow> pyerror + CModule" where
  "remove_class self name =
     (case remove_class_loop (classes self) name (classes self) of
        Inl e \<Rightarrow> Inl e
      | Inr cs \<Rightarrow> Inr (self\<lparr>classes := cs\<rparr>))"

subsection \<open>The process state and the operating system\<close>

text \<open>
  The program works on process-wide state: its two globals, the working directory, the
  file system and the standard output. The file system is a map from absolute paths
  (the list of components below the root) to nodes. The functions of \<^verbatim>\<open>os\<close> and
  \<^verbatim>\<open>os.path\<close> are not part of the program; they are modelled here after POSIX,
  without symbolic links, permissions or resource limits, each with the exceptions it
  raises on a missing or mistyped path. A path holding a NUL character makes every call
  that reaches the operating system raise \<^verbatim>\<open>ValueError\<close> (embedded null byte), here
  the error \<open>ValueError_null_byte\<close>.
\<close>

type_synonym path = "string list"

datatype node = Dir | File string

datatype oserror =
  FileNotFoundError | NotADirectoryError | FileExistsError | IsADirectoryError
  | ValueError_null_byte

datatype outcome = Returned | Raised oserror

record world =
  g_project_name :: "string option"
  g_current_module :: "string option"
  cwd :: path
  fs :: "path \<rightharpoonup> node"
  stdout :: "string list"

text \<open>\<^verbatim>\<open>s.split(sep)\<close> for a separator of one character.\<close>

fun split :: "char \<Rightarrow> string \<Rightarrow> string list" where
  "split sep [] = [[]]"
| "split sep (c # cs) =
     (if c = sep then [] # split sep cs
      else (case split sep cs of [] \<Rightarrow> [[c]] | p # ps \<Rightarrow> (c # p) # ps))"

text \<open>\<^verbatim>\<open>sep.join(xs)\<close>.\<close>

fun join :: "string \<Rightarrow> string list \<Rightarrow> string" where
  "join sep [] = []"
| "join sep [x] = x"
| "join sep (x # y # ys) = x @ sep @ join sep (y # ys)"

text \<open>
  Path resolution, component by component: a step is taken from a directory only; an
  empty component and \<^verbatim>\<open>.\<close> stay, \<^verbatim>\<open>..\<close> goes to the parent (the root is its own
  parent). The last component need not exist.
\<close>

fun walk :: "(path \<rightharpoonup> node) \<Rightarrow> path \<Rightarrow> string list \<Rightarrow> oserror + path" where
  "walk t cur [] = Inr cur"
| "walk t cur (c # cs) =
     (case t cur of
        None \<Rightarrow> Inl FileNotFoundError
      | Some (File x) \<Rightarrow> Inl NotADirectoryError
      | Some Dir \<Rightarrow>
          if c = [] \<or> c = ''.'' then walk t cur cs
          else if c = ''..'' then walk t (butlast cur) cs
          else walk t (cur @ [c]) cs)"

definition start_dir :: "world \<Rightarrow> string \<Rightarrow> path" where
  "start_dir w s = (if s \<noteq> [] \<and> hd s = CHR ''/'' then [] else cwd w)"

definition lookup :: "world \<Rightarrow> string \<Rightarrow> oserror + path" where
  "lookup w s =
     (if s = [] then Inl FileNotFoundError
      else if CHR 0x00 \<in> set s then Inl ValueError_null_byte
      else walk (fs w) (start_dir w s) (split (CHR ''/'') s))"

text \<open>\<^verbatim>\<open>os.path.isdir\<close>: never raises; every error of the lookup gives \<^verbatim>\<open>False\<close>.\<close>

definition isdir :: "world \<Rightarrow> string \<Rightarrow> bool" where
  "isdir w s = (case lookup w s of Inl e \<Rightarrow> False | Inr p \<Rightarrow> fs w p = Some Dir)"

definition os_chdir :: "string \<Rightarrow> world \<Rightarrow> outcome \<times> world" where
  "os_chdir s w =
     (case lookup w s of
        Inl e \<Rightarrow> (Raised e, w)
      | Inr p \<Rightarrow>
          (case fs w p of
             None \<Rightarrow> (Raised FileNotFoundError, w)
           | Some (File x) \<Rightarrow> (Raised NotADirectoryError, w)
           | Some Dir \<Rightarrow> (Returned, w\<lparr>cwd := p\<rparr>)))"

text \<open>\<^verbatim>\<open>os.mkdir\<close>: trailing slashes are ignored; the parent must be a directory and
  the name must be free.\<close>

definition os_mkdir :: "string \<Rightarrow> world \<Rightarrow> outcome \<times> world" where
  "os_mkdir s w =
     (if s = [] then (Raised FileNotFoundError, w)
      else if CHR 0x00 \<in> set s then (Raised ValueError_null_byte, w)
      else
        (case walk (fs w) (start_dir w s)
                (rev (dropWhile (\<lambda>c. c = []) (rev (split (CHR ''/'') s)))) of
           Inl e \<Rightarrow> (Raised e, w)
         | Inr p \<Rightarrow>
             (case fs w p of
                Some n \<Rightarrow> (Raised FileExistsError, w)
              | None \<Rightarrow> (Returned, w\<lparr>fs := (fs w)(p \<mapsto> Dir)\<rparr>))))"

text \<open>
  \<^verbatim>\<open>with open(name, 'w') as f: body\<close>. Opening creates the file or truncates it, and
  raises when the path cannot be resolved or names a directory. The file object is
  modelled by the text written to it so far; the body maps the empty text to the text
  the file holds when it is closed.
\<close>

definition with_open_w :: "string \<Rightarrow> (string \<Rightarrow> string) \<Rightarrow> world \<Rightarrow> outcome \<times> world" where
  "with_open_w s body w =
     (case lookup w s of
        Inl e \<Rightarrow> (Raised e, w)
      | Inr p \<Rightarrow>
          (case fs w p of
             Some Dir \<Rightarrow> (Raised IsADirectoryError, w)
           | _ \<Rightarrow> (Returned, w\<lparr>fs := (fs w)(p \<mapsto> File (body []))\<rparr>)))"

text \<open>\<^verbatim>\<open>f.write(data)\<close>.\<close>

definition f_write :: "string \<Rightarrow> string \<Rightarrow> string" where
  "f_write data f = f @ data"

text \<open>\<^verbatim>\<open>print(line)\<close>.\<close>

definition print :: "string \<Rightarrow> world \<Rightarrow> world" where
  "print line w = w\<lparr>stdout := stdout w @ [line]\<rparr>"

text \<open>\<^verbatim>\<open>os.getcwd\<close>, \<^verbatim>\<open>os.path.join\<close> of two parts, \<^verbatim>\<open>os.path.normpath\<close> and
  \<^verbatim>\<open>os.path.abspath\<close> of \<^verbatim>\<open>posixpath\<close>.\<close>

definition getcwd :: "world \<Rightarrow> string" where
  "getcwd w = ''/'' @ join ''/'' (cwd w)"

definition path_join :: "string \<Rightarrow> string \<Rightarrow> string" where
  "path_join a b =
     (if b \<noteq> [] \<and> hd b = CHR ''/'' then b
      else if a = [] \<or> last a = CHR ''/'' then a @ b
      else a @ ''/'' @ b)"

fun normpath_loop :: "nat \<Rightarrow> string list \<Rightarrow> string list \<Rightarrow> string list" where
  "normpath_loop initial_slashes [] new_comps = new_comps"
| "normpath_loop initial_slashes (c # comps) new_comps =
     (if c = [] \<or> c = ''.'' then normpath_loop initial_slashes comps new_comps
      else if c \<noteq> ''..'' \<or> (initial_slashes = 0 \<and> new_comps = [])
              \<or> (new_comps \<noteq> [] \<and> last new_comps = ''..'')
        then normpath_loop initial_slashes comps (new_comps @ [c])
      else if new_comps \<noteq> [] then normpath_loop initial_slashes comps (butlast new_comps)
      else normpath_loop initial_slashes comps new_comps)"

definition normpath :: "string \<Rightarrow> string" where
  "normpath p =
     (if p = [] then ''.''
      else
        (let initial_slashes =
               (if take 1 p = ''/''
                then (if take 2 p = ''//'' \<and> take 3 p \<noteq> ''///'' then 2 else 1)
                else (0::nat));
             new_comps = normpath_loop initial_slashes (split (CHR ''/'') p) [];
             q = replicate initial_slashes (CHR ''/'') @ join ''/'' new_comps
         in if q = [] then ''.'' else q))"

definition abspath :: "world \<Rightarrow> string \<Rightarrow> string" where
  "abspath w p =
     normpath (if take 1 p = ''/'' then p else path_join (getcwd w) p)"

subsection \<open>The generator\<close>

definition PRAGMA_ONCE_DEFINITION :: string where
  "PRAGMA_ONCE_DEFINITION = ''#pragma once'' @ [NL]"

text \<open>What \<^verbatim>\<open>'{}'.format(x)\<close> gives for a global that is a string or \<^verbatim>\<open>None\<close>.\<close>

definition format_global :: "string option \<Rightarrow> string" where
  "format_global g = (case g of None \<Rightarrow> ''None'' | Some s \<Rightarrow> s)"

text \<open>\<^verbatim>\<open>CClass.__get_header_function_declaration\<close>.\<close>

definition get_header_function_declaration :: "CFunction \<Rightarrow> string" where
  "get_header_function_declaration fn =
     (let result = [];
          result =
            (if description fn \<noteq> None
             then result @ [TAB, TAB] @ ''/*'' @ [NL, TAB, TAB, TAB]
                    @ replace NL [NL, TAB, TAB, TAB] (the (description fn))
                    @ [NL, TAB, TAB] @ ''*/'' @ [NL]
             else result);
          result = result @ [TAB, TAB] @ ''void '' @ fn_name fn @ ''();'' @ [NL];
          result = (if description fn \<noteq> None then result @ [NL] else result)
      in result)"

text \<open>The loops \<^verbatim>\<open>for fn in ...: code = ...; f.write(code)\<close> and
  \<^verbatim>\<open>for var in ...: f.write('\t\t{};\n'.format(var))\<close>.\<close>

fun write_functions :: "CFunction list \<Rightarrow> string \<Rightarrow> string" where
  "write_functions [] f = f"
| "write_functions (fn # fns) f =
     write_functions fns (f_write (get_header_function_declaration fn) f)"

fun write_variables :: "string list \<Rightarrow> string \<Rightarrow> string" where
  "write_variables [] f = f"
| "write_variables (var # vars) f =
     write_variables vars (f_write ([TAB, TAB] @ var @ '';'' @ [NL]) f)"

text \<open>The body of the \<^verbatim>\<open>with\<close> block of \<^verbatim>\<open>CClass.__generate_header_file\<close>, for
  the values the two globals have when it runs.\<close>

definition header_body :: "string option \<Rightarrow> string option \<Rightarrow> CClass \<Rightarrow> string \<Rightarrow> string" where
  "header_body project module self f0 =
     (let f = f_write PRAGMA_ONCE_DEFINITION f0;
          f = f_write ([NL] @ ''namespace '' @ format_global project @ ''::''
                        @ format_global module @ [NL] @ ''{'' @ [NL]) f;
          f = f_write ([TAB] @ ''class '' @ class_name self @ [NL]) f;
          f = f_write ([TAB] @ ''{'') f;
          f = (if 0 < length (public_functions self)
               then write_functions (public_functions self)
                      (f_write ([TAB] @ ''public:'' @ [NL]) (f_write [NL] f))
               else f);
          f = (if 0 < length (public_variables self)
               then write_variables (public_variables self)
                      (f_write ([TAB] @ ''public:'' @ [NL]) (f_write [NL] f))
               else f);
          f = (if 0 < length (private_functions self)
               then write_functions (public_functions self)
                      (f_write ([TAB] @ ''private:'' @ [NL]) (f_write [NL] f))
               else f);
          f = (if 0 < length (private_variables self)
               then write_variables (public_variables self)
                      (f_write ([TAB] @ ''private:'' @ [NL]) (f_write [NL] f))
               else f);
          f = f_write [NL] f;
          f = f_write ([TAB] @ ''};'' @ [NL]) f;
          f = f_write (''}'' @ [NL]) f
      in f)"

text \<open>The body of the \<^verbatim>\<open>with\<close> block of \<^verbatim>\<open>CClass.__generate_source_file\<close>.\<close>

definition source_body :: "string option \<Rightarrow> string option \<Rightarrow> CClass \<Rightarrow> string \<Rightarrow> string" where
  "source_body project module self f0 =
     (let f = f_write (''#include '' @ [DQUOTE] @ (class_name self @ ''.h'') @ [DQUOTE] @ [NL, NL]) f0;
          f = f_write (''namespace '' @ format_global project @ ''::''
                        @ format_global module @ [NL] @ ''{'' @ [NL]) f;
          f = f_write (''}'' @ [NL]) f
      in f)"

text \<open>
  The methods. Each takes the object it is called on and the process state, and returns
  how it ended, the object and the state as it leaves them; an exception leaves the
  method at once, with everything done so far in place.
\<close>

definition generate_header_file :: "CClass \<Rightarrow> world \<Rightarrow> outcome \<times> CClass \<times> world" where
  "generate_header_file self w =
     (case with_open_w (class_name self @ ''.h'')
             (header_body (g_project_name w) (g_current_module w) self) w of
        (r, w') \<Rightarrow> (r, self, w'))"

definition generate_source_file :: "CClass \<Rightarrow> world \<Rightarrow> outcome \<times> CClass \<times> world" where
  "generate_source_file self w =
     (case with_open_w (class_name self @ ''.cpp'')
             (source_body (g_project_name w) (g_current_module w) self) w of
        (r, w') \<Rightarrow> (r, self, w'))"

definition generate_class_files :: "CClass \<Rightarrow> world \<Rightarrow> outcome \<times> CClass \<times> world" where
  "generate_class_files self w =
     (case generate_header_file self w of
        (Raised e, self1, w1) \<Rightarrow> (Raised e, self1, w1)
      | (Returned, self1, w1) \<Rightarrow> generate_source_file self1 w1)"

text \<open>\<^verbatim>\<open>for cppclass in self.classes: cppclass.generate_class_files()\<close>.\<close>

fun generate_classes_loop :: "CClass list \<Rightarrow> world \<Rightarrow> outcome \<times> CClass list \<times> world" where
  "generate_classes_loop [] w = (Returned, [], w)"
| "generate_classes_loop (cppclass # rest) w =
     (case generate_class_files cppclass w of
        (Raised e, c', w') \<Rightarrow> (Raised e, c' # rest, w')
      | (Returned, c', w') \<Rightarrow>
          (case generate_classes_loop rest w' of
             (r, rest', w'') \<Rightarrow> (r, c' # rest', w'')))"

definition generate_cpp_source_files :: "CModule \<Rightarrow> world \<Rightarrow> outcome \<times> CModule \<times> world" where
  "generate_cpp_source_files self w =
     (let w = w\<lparr>g_current_module := Some (mod_name self)\<rparr> in
      case os_mkdir (mod_name self) w of
        (Raised e, w) \<Rightarrow> (Raised e, self, w)
      | (Returned, w) \<Rightarrow>
      (case os_chdir (mod_name self) w of
        (Raised e, w) \<Rightarrow> (Raised e, self, w)
      | (Returned, w) \<Rightarrow>
      (case generate_classes_loop (classes self) w of
        (Raised e, cs, w) \<Rightarrow> (Raised e, self\<lparr>classes := cs\<rparr>, w)
      | (Returned, cs, w) \<Rightarrow>
      (case os_chdir ''..'' w of
        (Raised e, w) \<Rightarrow> (Raised e, self\<lparr>classes := cs\<rparr>, w)
      | (Returned, w) \<Rightarrow>
          (Returned, self\<lparr>classes := cs\<rparr>, w\<lparr>g_current_module := None\<rparr>)))))"

text \<open>\<^verbatim>\<open>CProject.__generate_source_files\<close>:
  \<^verbatim>\<open>for mod in self.modules: mod.generate_cpp_source_files()\<close>.\<close>

fun generate_modules_loop :: "CModule list \<Rightarrow> world \<Rightarrow> outcome \<times> CModule list \<times> world" where
  "generate_modules_loop [] w = (Returned, [], w)"
| "generate_modules_loop (m # rest) w =
     (case generate_cpp_source_files m w of
        (Raised e, m', w') \<Rightarrow> (Raised e, m' # rest, w')
      | (Returned, m', w') \<Rightarrow>
          (case generate_modules_loop rest w' of
             (r, rest', w'') \<Rightarrow> (r, m' # rest', w'')))"

definition generate_source_files :: "CProject \<Rightarrow> world \<Rightarrow> outcome \<times> CProject \<times> world" where
  "generate_source_files self w =
     (case generate_modules_loop (modules self) w of
        (r, ms, w') \<Rightarrow> (r, self\<lparr>modules := ms\<rparr>, w'))"

text \<open>\<^verbatim>\<open>CProject.__generate_cmake_file\<close>: \<^verbatim>\<open>pass\<close>.\<close>

definition generate_cmake_file :: "CProject \<Rightarrow> world \<Rightarrow> outcome \<times> CProject \<times> world" where
  "generate_cmake_file self w = (Returned, self, w)"

definition generate_project :: "CProject \<Rightarrow> string \<Rightarrow> world \<Rightarrow> outcome \<times> CProject \<times> world" where
  "generate_project self target_dir w =
     (let w = w\<lparr>g_project_name := Some (project_name self)\<rparr>;
          target_dir = abspath w target_dir
      in
      if \<not> isdir w target_dir
      then (Returned, self, print ''Error> target directory does not exist'' w)
      else
      (case os_chdir target_dir w of
        (Raised e, w) \<Rightarrow> (Raised e, self, w)
      | (Returned, w) \<Rightarrow>
      if isdir w (project_name self)
      then (Returned, self, print ''Error> project directory already exists'' w)
      else
      (case os_mkdir (project_name self) w of
        (Raised e, w) \<Rightarrow> (Raised e, self, w)
      | (Returned, w) \<Rightarrow>
      (case os_chdir (project_name self) w of
        (Raised e, w) \<Rightarrow> (Raised e, self, w)
      | (Returned, w) \<Rightarrow>
      (case generate_source_files self w of
        (Raised e, self, w) \<Rightarrow> (Raised e, self, w)
      | (Returned, self, w) \<Rightarrow> generate_cmake_file self w)))))"

subsection \<open>The layout of the generated text\<close>

text \<open>
  The texts the two \<^verbatim>\<open>with\<close> blocks write to a fresh file, and the pieces in which the
  properties of these texts are stated.
\<close>

definition header_text :: "string option \<Rightarrow> string option \<Rightarrow> CClass \<Rightarrow> string" where
  "header_text project module c = header_body project module c []"

definition source_text :: "string option \<Rightarrow> string option \<Rightarrow> CClass \<Rightarrow> string" where
  "source_text project module c = source_body project module c []"

definition namespace_begin :: "string \<Rightarrow> string \<Rightarrow> string" where
  "namespace_begin outer inner = ''namespace '' @ outer @ ''::'' @ inner @ [NL] @ ''{'' @ [NL]"

definition class_begin :: "string \<Rightarrow> string" where
  "class_begin name = [TAB] @ ''class '' @ name @ [NL, TAB] @ ''{''"

definition access_marker :: "string \<Rightarrow> string" where
  "access_marker kw = [NL, TAB] @ kw @ '':'' @ [NL]"

definition declaration_line :: "CFunction \<Rightarrow> string" where
  "declaration_line fn = [TAB, TAB] @ ''void '' @ fn_name fn @ ''();'' @ [NL]"

definition comment_block :: "string \<Rightarrow> string" where
  "comment_block d =
     [TAB, TAB] @ ''/*'' @ [NL]
     @ concat (map (\<lambda>l. [TAB, TAB, TAB] @ l @ [NL]) (split NL d))
     @ [TAB, TAB] @ ''*/'' @ [NL]"

definition variable_line :: "string \<Rightarrow> string" where
  "variable_line var = [TAB, TAB] @ var @ '';'' @ [NL]"

definition class_end :: string where
  "class_end = [NL, TAB] @ ''};'' @ [NL] @ ''}'' @ [NL]"

definition header_open :: "string option \<Rightarrow> string option \<Rightarrow> CClass \<Rightarrow> string" where
  "header_open project module c =
     PRAGMA_ONCE_DEFINITION @ [NL]
     @ namespace_begin (format_global project) (format_global module)
     @ class_begin (class_name c)"

definition public_function_section :: "CClass \<Rightarrow> string" where
  "public_function_section c =
     (if public_functions c = [] then []
      else access_marker ''public''
           @ concat (map get_header_function_declaration (public_functions c)))"

definition public_variable_section :: "CClass \<Rightarrow> string" where
  "public_variable_section c =
     (if public_variables c = [] then []
      else access_marker ''public'' @ concat (map variable_line (public_variables c)))"

definition private_function_section :: "CClass \<Rightarrow> string" where
  "private_function_section c =
     (if private_functions c = [] then []
      else access_marker ''private''
           @ concat (map get_header_function_declaration (public_functions c)))"

definition private_variable_section :: "CClass \<Rightarrow> string" where
  "private_variable_section c =
     (if private_variables c = [] then []
      else access_marker ''private'' @ concat (map variable_line (public_variables c)))"

subsection \<open>The seed data of \<^verbatim>\<open>main\<close>\<close>

definition client_app_class :: CClass where
  "client_app_class =
     (CClass_init ''client_app'')
       \<lparr>public_functions :=
          [CFunction_init ''render_app''
             (Some ''Main rendering routine used to render the application''),
           CFunction_init ''render_overlay''
             (Some ''Draws the 2D overlay over the main window'')],
        private_functions := [CFunction_init ''render_background_color'' None],
        public_variables := [''std::unique_ptr<ClientState> m_ClientState = nullptr''],
        private_variables := [''Renderer* m_Renderer'', ''Window* m_Window'']\<rparr>"

definition ui_module :: CModule where
  "ui_module = (CModule_init ''ui'')\<lparr>classes := [client_app_class, CClass_init ''panels'']\<rparr>"

definition network_module :: CModule where
  "network_module =
     (CModule_init ''network'')\<lparr>classes := [CClass_init ''Packets'', CClass_init ''NetworkManager'']\<rparr>"

definition utils_module :: CModule where
  "utils_module = (CModule_init ''utils'')\<lparr>classes := [CClass_init ''Logger'']\<rparr>"

definition seed_project :: "string \<Rightarrow> CProject" where
  "seed_project name =
     (CProject_init name [])\<lparr>modules := [ui_module, network_module, utils_module]\<rparr>"

subsection \<open>Example inputs\<close>

text \<open>
  A small file system with the directories \<^verbatim>\<open>/home\<close>, \<^verbatim>\<open>/tmp\<close> and
  \<^verbatim>\<open>/tmp/old\<close>, the process started in \<^verbatim>\<open>/home\<close>; and the project of the
  first scenario of the specification, constructed with the explicit namespace
  \<^verbatim>\<open>ns\<close>.
\<close>

definition example_world :: world where
  "example_world =
     \<lparr>g_project_name = None, g_current_module = None, cwd = [''home''],
      fs = [[] \<mapsto> Dir, [''home''] \<mapsto> Dir, [''tmp''] \<mapsto> Dir, [''tmp'', ''old''] \<mapsto> Dir],
      stdout = []\<rparr>"

definition scenario_project :: CProject where
  "scenario_project =
     (CProject_init ''demo'' ''ns'')
       \<lparr>modules :=
          [(CModule_init ''core'')
             \<lparr>classes :=
                [(CClass_init ''Engine'')\<lparr>public_functions := [CFunction_init ''run'' None]\<rparr>]\<rparr>]\<rparr>"

text \<open>The same process while the classes of the module \<^verbatim>\<open>core\<close> of the project
  \<^verbatim>\<open>demo\<close> are generated: the two globals are set.\<close>

definition core_world :: world where
  "core_world = example_world\<lparr>g_project_name := Some ''demo'', g_current_module := Some ''core''\<rparr>"

section \<open>Properties\<close>

lemmas seed_defs = seed_project_def ui_module_def network_module_def utils_module_def
  CModule_init_def CClass_init_def CProject_init_def client_app_class_def CFunction_init_def

subsection \<open>Name sanitization\<close>

lemma replace_space_no_space:
  "CHR '' '' \<notin> set (replace (CHR '' '') ''_'' s)"
  by (induction s) auto

lemma set_re_sub_non_class:
  "set (re_sub_non_class s) = {c \<in> set s. in_class c}"
  by (induction s) auto

lemma re_sub_non_class_filter:
  "re_sub_non_class s = filter in_class s"
  by (induction s) auto

lemma re_sub_non_class_fixed:
  "(\<And>c. c \<in> set s \<Longrightarrow> in_class c) \<Longrightarrow> re_sub_non_class s = s"
  by (induction s) auto

lemma replace_fixed:
  "old \<notin> set s \<Longrightarrow> replace old new s = s"
  by (induction s) auto

lemma space_not_in_class: "\<not> in_class (CHR '' '')"
  by (simp add: in_class_def)

lemma underscore_in_class: "in_class (CHR ''_'')"
  by (simp add: in_class_def)

lemma sanitize_empty_iff:
  "sanitize s = [] \<longleftrightarrow> (\<forall>c \<in> set s. c \<noteq> CHR '' '' \<and> \<not> in_class c)"
  unfolding sanitize_def
  by (induction s) (auto simp: underscore_in_class)

lemma in_class_enum:
  "\<forall>c \<in> set (Enum.enum :: char list).
     in_class c \<longleftrightarrow> c \<in> set ''abcdefghijklmnopqrstuvwxyzABCDEFGHIJKLMNOPQRSTUVWXYZ0123456789_''"
  by code_simp

lemma in_class_alphabet:
  "in_class c \<longleftrightarrow> c \<in> set ''abcdefghijklmnopqrstuvwxyzABCDEFGHIJKLMNOPQRSTUVWXYZ0123456789_''"
proof -
  have "c \<in> set (Enum.enum :: char list)"
    by (simp add: enum_UNIV)
  with in_class_enum show ?thesis
    by blast
qed

lemma sanitize_in_class: "\<forall>c \<in> set (sanitize s). in_class c"
  by (simp add: sanitize_def set_re_sub_non_class)

lemma sanitize_no_space: "CHR '' '' \<notin> set (sanitize s)"
  using sanitize_in_class space_not_in_class by blast

lemma sanitize_idempotent: "sanitize (sanitize s) = sanitize s"
proof -
  have "replace (CHR '' '') ''_'' (sanitize s) = sanitize s"
    using sanitize_no_space by (rule replace_fixed)
  moreover have "re_sub_non_class (sanitize s) = sanitize s"
    using sanitize_in_class by (simp add: re_sub_non_class_fixed)
  ultimately show ?thesis
    by (simp add: sanitize_def)
qed

text \<open>
  A space is outside \<^verbatim>\<open>[A-Za-z0-9_]\<close>, but it is replaced by an underscore before the
  deletion: the input of one space has no character of the alphabet and is sanitized to
  \<^verbatim>\<open>_\<close>, not to the empty string.
\<close>

theorem sanitize_all_invalid_counterexample:
  "CHR '' '' \<notin> set ''abcdefghijklmnopqrstuvwxyzABCDEFGHIJKLMNOPQRSTUVWXYZ0123456789_''
   \<and> sanitize [CHR '' ''] = ''_''
   \<and> sanitize [CHR '' ''] \<noteq> []"
  by (simp add: sanitize_def in_class_def)

text \<open>
  Claim C4, amended. For every raw string, the sanitized name (spaces replaced by
  underscores, then every character outside \<^verbatim>\<open>[A-Za-z0-9_]\<close> deleted) contains only
  characters of that alphabet and no space; sanitizing is a total function with no error
  result, whose value is the empty string exactly when every character of the input is
  outside the alphabet and is not a space; and sanitizing a sanitized name changes nothing.
\<close>

theorem sanitize_alphabet_idempotent:
  "(\<forall>c \<in> set (sanitize s). c \<in> set ''abcdefghijklmnopqrstuvwxyzABCDEFGHIJKLMNOPQRSTUVWXYZ0123456789_'')
   \<and> CHR '' '' \<notin> set (sanitize s)
   \<and> (sanitize s = [] \<longleftrightarrow>
        (\<forall>c \<in> set s. c \<noteq> CHR '' '' \<and> c \<notin> set ''abcdefghijklmnopqrstuvwxyzABCDEFGHIJKLMNOPQRSTUVWXYZ0123456789_''))
   \<and> sanitize (sanitize s) = sanitize s"
proof -
  have cls: "\<forall>c \<in> set (sanitize s). c \<in> set ''abcdefghijklmnopqrstuvwxyzABCDEFGHIJKLMNOPQRSTUVWXYZ0123456789_''"
    using sanitize_in_class [of s] in_class_alphabet by blast
  have emp: "sanitize s = [] \<longleftrightarrow>
        (\<forall>c \<in> set s. c \<noteq> CHR '' '' \<and> c \<notin> set ''abcdefghijklmnopqrstuvwxyzABCDEFGHIJKLMNOPQRSTUVWXYZ0123456789_'')"
    using sanitize_empty_iff [of s] in_class_alphabet by blast
  from cls emp sanitize_no_space [of s] sanitize_idempotent [of s] show ?thesis
    by blast
qed

theorem sanitize_alphabet_idempotent_witness:
  "sanitize ''My Mod!'' = ''My_Mod''
   \<and> CHR ''M'' \<in> set ''abcdefghijklmnopqrstuvwxyzABCDEFGHIJKLMNOPQRSTUVWXYZ0123456789_''
   \<and> CHR ''_'' \<in> set ''abcdefghijklmnopqrstuvwxyzABCDEFGHIJKLMNOPQRSTUVWXYZ0123456789_''
   \<and> sanitize ''My_Mod'' = ''My_Mod''
   \<and> sanitize ''!!!'' = []
   \<and> CHR ''!'' \<notin> set ''abcdefghijklmnopqrstuvwxyzABCDEFGHIJKLMNOPQRSTUVWXYZ0123456789_''
   \<and> sanitize '' '' = ''_''"
proof -
  have e: "sanitize ''My Mod!'' = ''My_Mod''"
    by (simp add: sanitize_def in_class_def)
  have b: "sanitize ''!!!'' = []"
    by (simp add: sanitize_def in_class_def)
  have sp: "sanitize '' '' = ''_''"
    by (simp add: sanitize_def in_class_def)
  have m: "CHR ''M'' \<in> set (sanitize ''My Mod!'')" and u: "CHR ''_'' \<in> set (sanitize ''My Mod!'')"
    by (simp_all add: e)
  have bang: "CHR ''!'' \<in> set ''!!!''"
    by simp
  note t = sanitize_alphabet_idempotent [of "''My Mod!''"]
  note t' = sanitize_alphabet_idempotent [of "''!!!''"]
  have "CHR ''M'' \<in> set ''abcdefghijklmnopqrstuvwxyzABCDEFGHIJKLMNOPQRSTUVWXYZ0123456789_''"
    "CHR ''_'' \<in> set ''abcdefghijklmnopqrstuvwxyzABCDEFGHIJKLMNOPQRSTUVWXYZ0123456789_''"
    using t m u by blast+
  moreover have "sanitize ''My_Mod'' = ''My_Mod''"
    using t e by simp
  moreover have "CHR ''!'' \<notin> set ''abcdefghijklmnopqrstuvwxyzABCDEFGHIJKLMNOPQRSTUVWXYZ0123456789_''"
    using t' b bang by blast
  ultimately show ?thesis
    using e b sp by blast
qed

subsection \<open>Lookup by name\<close>

lemma get_module_loop_None:
  "get_module_loop ms n = None \<longleftrightarrow> (\<forall>m \<in> set ms. mod_name m \<noteq> n)"
  by (induction ms) auto

lemma find_Some_split:
  "find P xs = Some x \<longleftrightarrow> (\<exists>pre post. xs = pre @ x # post \<and> P x \<and> (\<forall>y \<in> set pre. \<not> P y))"
  (is "?L = ?R")
proof
  assume ?L
  then show ?R
  proof (induction xs)
    case Nil
    then show ?case by simp
  next
    case (Cons a xs)
    show ?case
    proof (cases "P a")
      case True
      with Cons.prems have "a # xs = [] @ x # xs \<and> P x \<and> (\<forall>y \<in> set []. \<not> P y)"
        by simp
      then show ?thesis by blast
    next
      case False
      with Cons obtain pre post where "xs = pre @ x # post" "P x" "\<forall>y \<in> set pre. \<not> P y"
        by auto
      with False have "a # xs = (a # pre) @ x # post \<and> P x \<and> (\<forall>y \<in> set (a # pre). \<not> P y)"
        by simp
      then show ?thesis by blast
    qed
  qed
next
  assume ?R
  then obtain pre post where "xs = pre @ x # post" "P x" "\<forall>y \<in> set pre. \<not> P y"
    by blast
  then show ?L
    by (induction pre arbitrary: xs) auto
qed

lemma get_module_loop_find: "get_module_loop ms n = find (\<lambda>m. mod_name m = n) ms"
  by (induction ms) auto

lemma get_class_loop_find: "get_class_loop cs n = find (\<lambda>c. class_name c = n) cs"
  by (induction cs) auto

lemma get_class_loop_None:
  "get_class_loop cs n = None \<longleftrightarrow> (\<forall>c \<in> set cs. class_name c \<noteq> n)"
  by (induction cs) auto

text \<open>
  Claim C5. \<^verbatim>\<open>get_module\<close> (and \<^verbatim>\<open>get_class\<close>) returns the first element of
  the collection whose name equals the given name: the element returned splits the
  collection into the elements before it, none of which has the name, and the elements
  after it. When no element has the name the result is \<open>None\<close>, in particular on an
  empty collection; the result type has no error value.
\<close>

theorem get_first_match_or_None:
  "(get_module p n = None \<longleftrightarrow> (\<forall>x \<in> set (modules p). mod_name x \<noteq> n))
   \<and> (get_module p n = Some m \<longleftrightarrow>
        (\<exists>pre post. modules p = pre @ m # post \<and> mod_name m = n
                     \<and> (\<forall>x \<in> set pre. mod_name x \<noteq> n)))
   \<and> get_module (p\<lparr>modules := []\<rparr>) n = None
   \<and> (get_class md k = None \<longleftrightarrow> (\<forall>x \<in> set (classes md). class_name x \<noteq> k))
   \<and> (get_class md k = Some c \<longleftrightarrow>
        (\<exists>pre post. classes md = pre @ c # post \<and> class_name c = k
                     \<and> (\<forall>x \<in> set pre. class_name x \<noteq> k)))
   \<and> get_class (md\<lparr>classes := []\<rparr>) k = None"
proof -
  have m1: "get_module p n = None \<longleftrightarrow> (\<forall>x \<in> set (modules p). mod_name x \<noteq> n)"
    by (simp add: get_module_def get_module_loop_None)
  have m2: "get_module p n = Some m \<longleftrightarrow>
        (\<exists>pre post. modules p = pre @ m # post \<and> mod_name m = n
                     \<and> (\<forall>x \<in> set pre. mod_name x \<noteq> n))"
    unfolding get_module_def get_module_loop_find
    by (rule find_Some_split)
  have m3: "get_module (p\<lparr>modules := []\<rparr>) n = None"
    by (simp add: get_module_def)
  have c1: "get_class md k = None \<longleftrightarrow> (\<forall>x \<in> set (classes md). class_name x \<noteq> k)"
    by (simp add: get_class_def get_class_loop_None)
  have c2: "get_class md k = Some c \<longleftrightarrow>
        (\<exists>pre post. classes md = pre @ c # post \<and> class_name c = k
                     \<and> (\<forall>x \<in> set pre. class_name x \<noteq> k))"
    unfolding get_class_def get_class_loop_find
    by (rule find_Some_split)
  have c3: "get_class (md\<lparr>classes := []\<rparr>) k = None"
    by (simp add: get_class_def)
  from m1 m2 m3 c1 c2 c3 show ?thesis
    by blast
qed

theorem get_first_match_or_None_witness:
  "get_module (seed_project ''demo'') ''network'' = Some network_module
   \<and> get_module (seed_project ''demo'') ''gui'' = None
   \<and> get_class (ui_module\<lparr>classes := classes ui_module @ [client_app_class\<lparr>public_functions := []\<rparr>]\<rparr>)
        ''client_app'' = Some client_app_class
   \<and> get_class ui_module ''Logger'' = None"
proof -
  let ?P = "seed_project ''demo''"
  let ?M = "ui_module\<lparr>classes := classes ui_module @ [client_app_class\<lparr>public_functions := []\<rparr>]\<rparr>"
  note t = get_first_match_or_None [of ?P "''network''" network_module ?M "''client_app''" client_app_class]
  note u = get_first_match_or_None [of ?P "''gui''" network_module ui_module "''Logger''" client_app_class]
  have "modules ?P = [ui_module] @ network_module # [utils_module]
        \<and> mod_name network_module = ''network''
        \<and> (\<forall>x \<in> set [ui_module]. mod_name x \<noteq> ''network'')"
    by (simp add: seed_defs)
  then have a: "get_module ?P ''network'' = Some network_module"
    using t by blast
  have "classes ?M = [] @ client_app_class # [CClass_init ''panels'', client_app_class\<lparr>public_functions := []\<rparr>]
        \<and> class_name client_app_class = ''client_app''
        \<and> (\<forall>x \<in> set []. class_name x \<noteq> ''client_app'')"
    by (simp add: seed_defs)
  then have b: "get_class ?M ''client_app'' = Some client_app_class"
    using t by blast
  have "\<forall>x \<in> set (modules ?P). mod_name x \<noteq> ''gui''"
    by (simp add: seed_defs)
  then have c: "get_module ?P ''gui'' = None"
    using u by blast
  have "\<forall>x \<in> set (classes ui_module). class_name x \<noteq> ''Logger''"
    by (simp add: seed_defs)
  then have d: "get_class ui_module ''Logger'' = None"
    using u by blast
  from a b c d show ?thesis by blast
qed

subsection \<open>Removal by name\<close>

lemma list_remove_first:
  "x \<notin> set pre \<Longrightarrow> list_remove x (pre @ x # post) = Inr (pre @ post)"
  by (induction pre) auto

lemma remove_module_loop_absent:
  "\<forall>m \<in> set ms. mod_name m \<noteq> n \<Longrightarrow> remove_module_loop ms n all = Inr all"
  by (induction ms) auto

lemma remove_module_loop_first:
  "\<forall>x \<in> set pre. mod_name x \<noteq> n \<Longrightarrow> mod_name m = n \<Longrightarrow>
   remove_module_loop (pre @ m # post) n all = list_remove m all"
  by (induction pre) auto

lemma remove_class_loop_absent:
  "\<forall>c \<in> set cs. class_name c \<noteq> n \<Longrightarrow> remove_class_loop cs n all = Inr all"
  by (induction cs) auto

lemma remove_class_loop_first:
  "\<forall>x \<in> set pre. class_name x \<noteq> n \<Longrightarrow> class_name c = n \<Longrightarrow>
   remove_class_loop (pre @ c # post) n all = list_remove c all"
  by (induction pre) auto

lemma remove_module_absent:
  assumes "\<forall>x \<in> set (modules p). mod_name x \<noteq> n"
  shows "remove_module p n = Inr p"
  using assms by (simp add: remove_module_def remove_module_loop_absent)

lemma remove_module_first:
  assumes "modules p = pre @ m # post" "mod_name m = n" "\<forall>x \<in> set pre. mod_name x \<noteq> n"
  shows "remove_module p n = Inr (p\<lparr>modules := pre @ post\<rparr>)"
proof -
  have "m \<notin> set pre"
    using assms(2,3) by blast
  then have "list_remove m (modules p) = Inr (pre @ post)"
    unfolding assms(1) by (rule list_remove_first)
  moreover have "remove_module_loop (modules p) n (modules p) = list_remove m (modules p)"
    using remove_module_loop_first [OF assms(3) assms(2), of post "modules p"] assms(1) by simp
  ultimately show ?thesis
    by (simp add: remove_module_def)
qed

lemma remove_class_absent:
  assumes "\<forall>x \<in> set (classes md). class_name x \<noteq> n"
  shows "remove_class md n = Inr md"
  using assms by (simp add: remove_class_def remove_class_loop_absent)

lemma remove_class_first:
  assumes "classes md = pre @ c # post" "class_name c = n" "\<forall>x \<in> set pre. class_name x \<noteq> n"
  shows "remove_class md n = Inr (md\<lparr>classes := pre @ post\<rparr>)"
proof -
  have "c \<notin> set pre"
    using assms(2,3) by blast
  then have "list_remove c (classes md) = Inr (pre @ post)"
    unfolding assms(1) by (rule list_remove_first)
  moreover have "remove_class_loop (classes md) n (classes md) = list_remove c (classes md)"
    using remove_class_loop_first [OF assms(3) assms(2), of post "classes md"] assms(1) by simp
  ultimately show ?thesis
    by (simp add: remove_class_def)
qed

lemma first_match_cases:
  "(\<forall>x \<in> set xs. \<not> P x) \<or> (\<exists>pre x post. xs = pre @ x # post \<and> P x \<and> (\<forall>y \<in> set pre. \<not> P y))"
proof (cases "find P xs")
  case None
  then show ?thesis by (simp add: find_None_iff)
next
  case (Some x)
  then show ?thesis using find_Some_split [of P xs x] by blast
qed

lemma remove_module_total: "\<exists>p'. remove_module p n = Inr p'"
  using first_match_cases [of "modules p" "\<lambda>x. mod_name x = n"]
    remove_module_absent [of p n] remove_module_first [of p _ _ _ n]
  by blast

lemma remove_class_total: "\<exists>md'. remove_class md n = Inr md'"
  using first_match_cases [of "classes md" "\<lambda>x. class_name x = n"]
    remove_class_absent [of md n] remove_class_first [of md _ _ _ n]
  by blast

text \<open>
  Claim C6. \<^verbatim>\<open>remove_module\<close> (and \<^verbatim>\<open>remove_class\<close>) never raises; when
  no element of the collection has the given name it returns the entity unchanged; and
  when the collection is \<open>pre @ m # post\<close> with \<open>m\<close> the first element of that name, the
  collection afterwards is \<open>pre @ post\<close>: exactly that element is gone, every other
  element stays, in its order.
\<close>

theorem remove_first_match_only:
  "(\<exists>p'. remove_module p n = Inr p')
   \<and> ((\<forall>x \<in> set (modules p). mod_name x \<noteq> n) \<longrightarrow> remove_module p n = Inr p)
   \<and> (modules p = pre @ m # post \<and> mod_name m = n \<and> (\<forall>x \<in> set pre. mod_name x \<noteq> n)
        \<longrightarrow> remove_module p n = Inr (p\<lparr>modules := pre @ post\<rparr>))
   \<and> (\<exists>md'. remove_class md k = Inr md')
   \<and> ((\<forall>x \<in> set (classes md). class_name x \<noteq> k) \<longrightarrow> remove_class md k = Inr md)
   \<and> (classes md = cpre @ c # cpost \<and> class_name c = k \<and> (\<forall>x \<in> set cpre. class_name x \<noteq> k)
        \<longrightarrow> remove_class md k = Inr (md\<lparr>classes := cpre @ cpost\<rparr>))"
  using remove_module_total [of p n] remove_module_absent [of p n]
    remove_module_first [of p pre m post n]
    remove_class_total [of md k] remove_class_absent [of md k]
    remove_class_first [of md cpre c cpost k]
  by blast

theorem remove_first_match_only_witness:
  "remove_module (seed_project ''demo'') ''network''
     = Inr ((seed_project ''demo'')\<lparr>modules := [ui_module, utils_module]\<rparr>)
   \<and> remove_module (seed_project ''demo'') ''gui'' = Inr (seed_project ''demo'')
   \<and> remove_class (ui_module\<lparr>classes := classes ui_module @ [client_app_class\<lparr>public_functions := []\<rparr>]\<rparr>)
        ''client_app''
     = Inr (ui_module\<lparr>classes := [CClass_init ''panels'', client_app_class\<lparr>public_functions := []\<rparr>]\<rparr>)
   \<and> remove_class ui_module ''Logger'' = Inr ui_module"
proof -
  let ?P = "seed_project ''demo''"
  let ?M = "ui_module\<lparr>classes := classes ui_module @ [client_app_class\<lparr>public_functions := []\<rparr>]\<rparr>"
  note t = remove_first_match_only [of ?P "''network''" "[ui_module]" network_module "[utils_module]"
      ?M "''client_app''" "[]" client_app_class
      "[CClass_init ''panels'', client_app_class\<lparr>public_functions := []\<rparr>]"]
  note u = remove_first_match_only [of ?P "''gui''" "[]" network_module "[]"
      ui_module "''Logger''" "[]" client_app_class "[]"]
  have "modules ?P = [ui_module] @ network_module # [utils_module]
        \<and> mod_name network_module = ''network''
        \<and> (\<forall>x \<in> set [ui_module]. mod_name x \<noteq> ''network'')"
    by (simp add: seed_defs)
  then have a: "remove_module ?P ''network'' = Inr (?P\<lparr>modules := [ui_module] @ [utils_module]\<rparr>)"
    using t by blast
  have "classes ?M = [] @ client_app_class # [CClass_init ''panels'', client_app_class\<lparr>public_functions := []\<rparr>]
        \<and> class_name client_app_class = ''client_app''
        \<and> (\<forall>x \<in> set []. class_name x \<noteq> ''client_app'')"
    by (simp add: seed_defs)
  then have b: "remove_class ?M ''client_app''
     = Inr (?M\<lparr>classes := [] @ [CClass_init ''panels'', client_app_class\<lparr>public_functions := []\<rparr>]\<rparr>)"
    using t by blast
  have "\<forall>x \<in> set (modules ?P). mod_name x \<noteq> ''gui''"
    by (simp add: seed_defs)
  then have c: "remove_module ?P ''gui'' = Inr ?P"
    using u by blast
  have "\<forall>x \<in> set (classes ui_module). class_name x \<noteq> ''Logger''"
    by (simp add: seed_defs)
  then have d: "remove_class ui_module ''Logger'' = Inr ui_module"
    using u by blast
  from a b c d show ?thesis by simp
qed

subsection \<open>The operating system model\<close>

lemma lookup_frame [simp]:
  "lookup (w\<lparr>g_project_name := a\<rparr>) s = lookup w s"
  "lookup (w\<lparr>g_current_module := b\<rparr>) s = lookup w s"
  "lookup (w\<lparr>stdout := c\<rparr>) s = lookup w s"
  by (simp_all add: lookup_def start_dir_def)

lemma isdir_frame [simp]:
  "isdir (w\<lparr>g_project_name := a\<rparr>) s = isdir w s"
  "isdir (w\<lparr>g_current_module := b\<rparr>) s = isdir w s"
  "isdir (w\<lparr>stdout := c\<rparr>) s = isdir w s"
  by (simp_all add: isdir_def split: sum.splits)

lemma abspath_frame [simp]:
  "abspath (w\<lparr>g_project_name := a\<rparr>) s = abspath w s"
  "abspath (w\<lparr>g_current_module := b\<rparr>) s = abspath w s"
  "abspath (w\<lparr>stdout := c\<rparr>) s = abspath w s"
  "abspath (w\<lparr>fs := d\<rparr>) s = abspath w s"
  by (simp_all add: abspath_def getcwd_def)

lemma os_chdir_frame:
  assumes "os_chdir s w = (r, w')"
  shows "g_project_name w' = g_project_name w" "g_current_module w' = g_current_module w"
    "fs w' = fs w" "stdout w' = stdout w"
  using assms by (auto simp: os_chdir_def split: sum.splits option.splits node.splits)

lemma os_chdir_Returned:
  "os_chdir s w = (Returned, w') \<longleftrightarrow>
     (\<exists>d. lookup w s = Inr d \<and> fs w d = Some Dir \<and> w' = w\<lparr>cwd := d\<rparr>)"
  by (auto simp: os_chdir_def split: sum.splits option.splits node.splits)

lemma os_chdir_Raised:
  "os_chdir s w = (Raised e, w') \<Longrightarrow> w' = w"
  by (auto simp: os_chdir_def split: sum.splits option.splits node.splits)

lemma os_mkdir_frame:
  assumes "os_mkdir s w = (r, w')"
  shows "g_project_name w' = g_project_name w" "g_current_module w' = g_current_module w"
    "cwd w' = cwd w" "stdout w' = stdout w"
  using assms by (auto simp: os_mkdir_def split: sum.splits option.splits if_splits)

lemma with_open_w_frame:
  assumes "with_open_w s body w = (r, w')"
  shows "g_project_name w' = g_project_name w" "g_current_module w' = g_current_module w"
    "cwd w' = cwd w" "stdout w' = stdout w"
  using assms by (auto simp: with_open_w_def split: sum.splits option.splits node.splits)

lemma with_open_w_Returned:
  "with_open_w s body w = (Returned, w') \<longleftrightarrow>
     (\<exists>p. lookup w s = Inr p \<and> fs w p \<noteq> Some Dir \<and> w' = w\<lparr>fs := (fs w)(p \<mapsto> File (body []))\<rparr>)"
  by (auto simp: with_open_w_def split: sum.splits option.splits node.splits)

lemma isdir_iff:
  "isdir w s \<longleftrightarrow> (\<exists>d. lookup w s = Inr d \<and> fs w d = Some Dir)"
  by (auto simp: isdir_def split: sum.splits)

lemmas os_defs = abspath_def normpath_def path_join_def getcwd_def lookup_def start_dir_def
  isdir_def os_chdir_def os_mkdir_def with_open_w_def print_def




lemma lookup_tmp: "lookup example_world ''/tmp'' = Inr [''tmp'']"
  by (simp add: os_defs example_world_def)

lemma fs_tmp: "fs example_world [''tmp''] = Some Dir"
  by (simp add: example_world_def)

lemma isdir_old: "isdir (example_world\<lparr>cwd := [''tmp'']\<rparr>) ''old''"
  by (simp add: os_defs example_world_def)

lemmas gen_defs = generate_project_def generate_source_files_def generate_cmake_file_def
  generate_cpp_source_files_def generate_class_files_def generate_header_file_def
  generate_source_file_def

subsection \<open>The generated header\<close>

lemma write_functions_concat:
  "write_functions fns f = f @ concat (map get_header_function_declaration fns)"
  by (induction fns arbitrary: f) (simp_all add: f_write_def)

lemma write_variables_concat:
  "write_variables vars f = f @ concat (map variable_line vars)"
  by (induction vars arbitrary: f) (simp_all add: f_write_def variable_line_def)

lemma header_text_layout:
  "header_text project module c =
     header_open project module c
     @ public_function_section c @ public_variable_section c
     @ private_function_section c @ private_variable_section c
     @ class_end"
  by (simp add: header_text_def header_body_def Let_def f_write_def
      write_functions_concat write_variables_concat header_open_def namespace_begin_def
      class_begin_def access_marker_def class_end_def public_function_section_def
      public_variable_section_def private_function_section_def private_variable_section_def)

lemma source_text_layout:
  "source_text project module c =
     ''#include '' @ [DQUOTE] @ class_name c @ ''.h'' @ [DQUOTE] @ [NL, NL]
     @ namespace_begin (format_global project) (format_global module)
     @ ''}'' @ [NL]"
  by (simp add: source_text_def source_body_def Let_def f_write_def namespace_begin_def)

lemma split_not_Nil: "split sep s \<noteq> []"
  by (induction s) (auto split: list.splits)

lemma replace_lines:
  "ind @ replace NL (NL # ind) d @ [NL] = concat (map (\<lambda>l. ind @ l @ [NL]) (split NL d))"
proof (induction d)
  case Nil
  show ?case by simp
next
  case (Cons c d)
  show ?case
  proof (cases "c = NL")
    case True
    with Cons show ?thesis by simp
  next
    case False
    obtain p ps where sp: "split NL d = p # ps"
      using split_not_Nil [of NL d] by (cases "split NL d") auto
    from Cons sp have "replace NL (NL # ind) d @ [NL] = p @ [NL] @ concat (map (\<lambda>l. ind @ l @ [NL]) ps)"
      by simp
    with False sp show ?thesis by simp
  qed
qed

lemma declaration_shape:
  "get_header_function_declaration fn =
     (case description fn of
        None \<Rightarrow> declaration_line fn
      | Some d \<Rightarrow> comment_block d @ declaration_line fn @ [NL])"
proof (cases "description fn")
  case None
  then show ?thesis
    by (simp add: get_header_function_declaration_def declaration_line_def)
next
  case (Some d)
  have "[TAB, TAB, TAB] @ replace NL [NL, TAB, TAB, TAB] d @ [NL]
        = concat (map (\<lambda>l. [TAB, TAB, TAB] @ l @ [NL]) (split NL d))"
    using replace_lines [of "[TAB, TAB, TAB]" d] by simp
  then have "comment_block d =
       [TAB, TAB] @ ''/*'' @ [NL] @ [TAB, TAB, TAB] @ replace NL [NL, TAB, TAB, TAB] d @ [NL]
       @ [TAB, TAB] @ ''*/'' @ [NL]"
    by (simp add: comment_block_def)
  with Some show ?thesis
    by (simp add: get_header_function_declaration_def declaration_line_def)
qed

lemmas layout_defs = header_open_def namespace_begin_def class_begin_def access_marker_def
  declaration_line_def comment_block_def variable_line_def class_end_def
  public_function_section_def public_variable_section_def private_function_section_def
  private_variable_section_def PRAGMA_ONCE_DEFINITION_def format_global_def

lemma generate_header_file_writes:
  "generate_header_file c w = (Returned, c', w') \<Longrightarrow>
     \<exists>p. lookup w (class_name c @ ''.h'') = Inr p \<and> c' = c
        \<and> w' = w\<lparr>fs := (fs w)(p \<mapsto> File (header_text (g_project_name w) (g_current_module w) c))\<rparr>"
  by (auto simp: generate_header_file_def header_text_def with_open_w_Returned split: prod.splits)

lemma generate_header_file_runs:
  assumes "lookup w (class_name c @ ''.h'') = Inr p" "fs w p \<noteq> Some Dir"
  shows "generate_header_file c w = (Returned, c, snd (snd (generate_header_file c w)))"
  using assms
  by (simp add: generate_header_file_def with_open_w_def split: option.splits node.splits)

lemma core_world_lookup_Engine_h:
  "lookup core_world ''Engine.h'' = Inr [''home'', ''Engine.h'']"
  "fs core_world [''home'', ''Engine.h''] \<noteq> Some Dir"
  "g_project_name core_world = Some ''demo''" "g_current_module core_world = Some ''core''"
  "fs core_world = fs example_world"
  by (simp_all add: core_world_def os_defs example_world_def)

text \<open>
  Claim C7. The text emitted for a function is, in this order: when the function has a
  description, a block comment holding the description with each of its lines on a line
  of its own, indented under the comment; then the declaration
  \<^verbatim>\<open>void name();\<close>; then, when the function has a description, an empty line. A
  function without description gives the declaration line alone. When
  \<^verbatim>\<open>public_functions\<close> is not empty the header holds, after the opening of the class
  and a public access marker, these texts for the functions of \<^verbatim>\<open>public_functions\<close>
  in their order. The header is the text \<^verbatim>\<open>__generate_header_file\<close> writes: when it
  returns, the file \<^verbatim>\<open>{class_name}.h\<close> holds this text, for the values the two globals
  have, and nothing else has changed.
\<close>

theorem public_function_declarations:
  "get_header_function_declaration fn =
     (case description fn of
        None \<Rightarrow> declaration_line fn
      | Some d \<Rightarrow> comment_block d @ declaration_line fn @ [NL])
   \<and> (public_functions c \<noteq> [] \<longrightarrow>
        header_text project module c =
          header_open project module c
          @ access_marker ''public''
          @ concat (map get_header_function_declaration (public_functions c))
          @ public_variable_section c @ private_function_section c
          @ private_variable_section c @ class_end)
   \<and> (generate_header_file c w = (Returned, c', w') \<longrightarrow>
        (\<exists>p. lookup w (class_name c @ ''.h'') = Inr p
           \<and> w' = w\<lparr>fs := (fs w)(p \<mapsto> File (header_text (g_project_name w) (g_current_module w) c))\<rparr>))"
proof -
  have "generate_header_file c w = (Returned, c', w') \<longrightarrow>
        (\<exists>p. lookup w (class_name c @ ''.h'') = Inr p
           \<and> w' = w\<lparr>fs := (fs w)(p \<mapsto> File (header_text (g_project_name w) (g_current_module w) c))\<rparr>)"
    using generate_header_file_writes [of c w c' w'] by blast
  then show ?thesis
    using declaration_shape [of fn] header_text_layout [of project module c]
    by (simp add: public_function_section_def)
qed

theorem public_function_declarations_witness:
  "public_functions
      ((CClass_init ''Engine'')
         \<lparr>public_functions :=
            [CFunction_init ''run'' None,
             CFunction_init ''stop'' (Some (''Stops the engine.'' @ [NL] @ ''Idempotent.''))]\<rparr>) \<noteq> []
   \<and> header_text (Some ''demo'') (Some ''core'')
      ((CClass_init ''Engine'')
         \<lparr>public_functions :=
            [CFunction_init ''run'' None,
             CFunction_init ''stop'' (Some (''Stops the engine.'' @ [NL] @ ''Idempotent.''))]\<rparr>)
     = ''#pragma once'' @ [NL]
       @ [NL] @ ''namespace demo::core'' @ [NL]
       @ ''{'' @ [NL]
       @ [TAB] @ ''class Engine'' @ [NL]
       @ [TAB] @ ''{'' @ [NL]
       @ [TAB] @ ''public:'' @ [NL]
       @ [TAB, TAB] @ ''void run();'' @ [NL]
       @ [TAB, TAB] @ ''/*'' @ [NL]
       @ [TAB, TAB, TAB] @ ''Stops the engine.'' @ [NL]
       @ [TAB, TAB, TAB] @ ''Idempotent.'' @ [NL]
       @ [TAB, TAB] @ ''*/'' @ [NL]
       @ [TAB, TAB] @ ''void stop();'' @ [NL]
       @ [NL]
       @ [NL]
       @ [TAB] @ ''};'' @ [NL]
       @ ''}'' @ [NL]
   \<and> fst (generate_header_file
      ((CClass_init ''Engine'')
         \<lparr>public_functions :=
            [CFunction_init ''run'' None,
             CFunction_init ''stop'' (Some (''Stops the engine.'' @ [NL] @ ''Idempotent.''))]\<rparr>) core_world) = Returned
   \<and> fs (snd (snd (generate_header_file
      ((CClass_init ''Engine'')
         \<lparr>public_functions :=
            [CFunction_init ''run'' None,
             CFunction_init ''stop'' (Some (''Stops the engine.'' @ [NL] @ ''Idempotent.''))]\<rparr>) core_world))) [''home'', ''Engine.h'']
     = Some (File (header_text (Some ''demo'') (Some ''core'')
      ((CClass_init ''Engine'')
         \<lparr>public_functions :=
            [CFunction_init ''run'' None,
             CFunction_init ''stop'' (Some (''Stops the engine.'' @ [NL] @ ''Idempotent.''))]\<rparr>)))"
proof -
  let ?stop = "CFunction_init ''stop'' (Some (''Stops the engine.'' @ [NL] @ ''Idempotent.''))"
  let ?c = "(CClass_init ''Engine'')\<lparr>public_functions := [CFunction_init ''run'' None, ?stop]\<rparr>"
  have ne: "public_functions ?c \<noteq> []"
    by simp
  have nl: "NL \<noteq> CHR ''S''" "NL \<noteq> CHR ''I''" "NL \<notin> set ''Stops the engine.''" "NL \<notin> set ''Idempotent.''"
    by (simp_all add: NL_def)
  have sp: "split NL (''Stops the engine.'' @ [NL] @ ''Idempotent.'') = [''Stops the engine.'', ''Idempotent.'']"
    by (simp add: NL_def)
  note r = public_function_declarations [of "CFunction_init ''run'' None" ?c "Some ''demo''" "Some ''core''"]
  note s = public_function_declarations [of ?stop ?c "Some ''demo''" "Some ''core''"]
  have dr: "get_header_function_declaration (CFunction_init ''run'' None) = [TAB, TAB] @ ''void run();'' @ [NL]"
    using r by (simp add: CFunction_init_def declaration_line_def)
  have ds: "get_header_function_declaration ?stop =
      [TAB, TAB] @ ''/*'' @ [NL] @ [TAB, TAB, TAB] @ ''Stops the engine.'' @ [NL]
       @ [TAB, TAB, TAB] @ ''Idempotent.'' @ [NL] @ [TAB, TAB] @ ''*/'' @ [NL]
       @ [TAB, TAB] @ ''void stop();'' @ [NL] @ [NL]"
    using s sp by (simp add: CFunction_init_def declaration_line_def comment_block_def)
  from r ne have "header_text (Some ''demo'') (Some ''core'') ?c =
          header_open (Some ''demo'') (Some ''core'') ?c
          @ access_marker ''public''
          @ concat (map get_header_function_declaration (public_functions ?c))
          @ public_variable_section ?c @ private_function_section ?c
          @ private_variable_section ?c @ class_end"
    by blast
  then have lit: "header_text (Some ''demo'') (Some ''core'') ?c
     = ''#pragma once'' @ [NL]
       @ [NL] @ ''namespace demo::core'' @ [NL]
       @ ''{'' @ [NL]
       @ [TAB] @ ''class Engine'' @ [NL]
       @ [TAB] @ ''{'' @ [NL]
       @ [TAB] @ ''public:'' @ [NL]
       @ [TAB, TAB] @ ''void run();'' @ [NL]
       @ [TAB, TAB] @ ''/*'' @ [NL]
       @ [TAB, TAB, TAB] @ ''Stops the engine.'' @ [NL]
       @ [TAB, TAB, TAB] @ ''Idempotent.'' @ [NL]
       @ [TAB, TAB] @ ''*/'' @ [NL]
       @ [TAB, TAB] @ ''void stop();'' @ [NL]
       @ [NL]
       @ [NL]
       @ [TAB] @ ''};'' @ [NL]
       @ ''}'' @ [NL]"
    using dr ds
    by (simp add: CClass_init_def header_open_def namespace_begin_def class_begin_def
        access_marker_def class_end_def public_variable_section_def private_function_section_def
        private_variable_section_def PRAGMA_ONCE_DEFINITION_def format_global_def)
  let ?g = "generate_header_file ?c core_world"
  have n: "class_name ?c @ ''.h'' = ''Engine.h''"
    by (simp add: CClass_init_def)
  have e: "?g = (Returned, ?c, snd (snd ?g))"
    using core_world_lookup_Engine_h(1,2) by (rule generate_header_file_runs [of core_world ?c, unfolded n])
  note g = public_function_declarations
    [of ?stop ?c "Some ''demo''" "Some ''core''" core_world ?c "snd (snd ?g)"]
  from g e obtain p where "lookup core_world (class_name ?c @ ''.h'') = Inr p"
    and w': "snd (snd ?g) = core_world\<lparr>fs := (fs core_world)(p \<mapsto>
       File (header_text (g_project_name core_world) (g_current_module core_world) ?c))\<rparr>"
    by blast
  then have p: "p = [''home'', ''Engine.h'']"
    using core_world_lookup_Engine_h(1) n by simp
  have ff: "fs (snd (snd ?g)) [''home'', ''Engine.h'']
      = Some (File (header_text (Some ''demo'') (Some ''core'') ?c))"
    by (subst w') (simp add: p core_world_lookup_Engine_h(3,4))
  have fr: "fst ?g = Returned"
    by (subst e) simp
  from ne lit fr ff show ?thesis
    by blast
qed

lemma header_text_private_emptiness_only:
  assumes "pf = [] \<longleftrightarrow> private_functions c = []" "pv = [] \<longleftrightarrow> private_variables c = []"
  shows "header_text project module (c\<lparr>private_functions := pf, private_variables := pv\<rparr>)
         = header_text project module c"
  using assms
  by (simp add: header_text_layout header_open_def public_function_section_def
      public_variable_section_def private_function_section_def private_variable_section_def)

text \<open>
  Claim C2. When \<^verbatim>\<open>private_functions\<close> is not empty, the header holds a private access
  marker followed by the declarations of the functions of \<^verbatim>\<open>public_functions\<close>; when
  \<^verbatim>\<open>private_variables\<close> is not empty, it holds a private access marker followed by one
  declaration line for each element of \<^verbatim>\<open>public_variables\<close>. The elements of the two
  private sequences are never emitted: replacing them by other sequences that are empty
  exactly when they are leaves the header unchanged. The header is the text
  \<^verbatim>\<open>__generate_header_file\<close> writes: when it returns, the file
  \<^verbatim>\<open>{class_name}.h\<close> holds this text, for the values the two globals have, and nothing
  else has changed.
\<close>

theorem private_sections_draw_from_public:
  "(private_functions c \<noteq> [] \<longrightarrow>
      header_text project module c =
        header_open project module c
        @ public_function_section c @ public_variable_section c
        @ access_marker ''private''
        @ concat (map get_header_function_declaration (public_functions c))
        @ private_variable_section c @ class_end)
   \<and> (private_variables c \<noteq> [] \<longrightarrow>
      header_text project module c =
        header_open project module c
        @ public_function_section c @ public_variable_section c
        @ private_function_section c
        @ access_marker ''private''
        @ concat (map variable_line (public_variables c))
        @ class_end)
   \<and> ((pf = [] \<longleftrightarrow> private_functions c = []) \<and> (pv = [] \<longleftrightarrow> private_variables c = []) \<longrightarrow>
      header_text project module (c\<lparr>private_functions := pf, private_variables := pv\<rparr>)
        = header_text project module c)
   \<and> (generate_header_file c w = (Returned, c', w') \<longrightarrow>
        (\<exists>p. lookup w (class_name c @ ''.h'') = Inr p
           \<and> w' = w\<lparr>fs := (fs w)(p \<mapsto> File (header_text (g_project_name w) (g_current_module w) c))\<rparr>))"
proof -
  have "generate_header_file c w = (Returned, c', w') \<longrightarrow>
        (\<exists>p. lookup w (class_name c @ ''.h'') = Inr p
           \<and> w' = w\<lparr>fs := (fs w)(p \<mapsto> File (header_text (g_project_name w) (g_current_module w) c))\<rparr>)"
    using generate_header_file_writes [of c w c' w'] by blast
  then show ?thesis
    using header_text_layout [of project module c]
      header_text_private_emptiness_only [of pf c pv project module]
    by (simp add: private_function_section_def private_variable_section_def)
qed

theorem private_sections_draw_from_public_witness:
  "header_text (Some ''demo'') (Some ''core'')
      ((CClass_init ''Engine'')
         \<lparr>public_functions := [CFunction_init ''run'' None],
          private_functions := [CFunction_init ''tick'' None],
          public_variables := [''int speed''],
          private_variables := [''int secret'', ''bool dirty'']\<rparr>)
     = ''#pragma once'' @ [NL]
       @ [NL] @ ''namespace demo::core'' @ [NL]
       @ ''{'' @ [NL]
       @ [TAB] @ ''class Engine'' @ [NL]
       @ [TAB] @ ''{'' @ [NL]
       @ [TAB] @ ''public:'' @ [NL]
       @ [TAB, TAB] @ ''void run();'' @ [NL]
       @ [NL]
       @ [TAB] @ ''public:'' @ [NL]
       @ [TAB, TAB] @ ''int speed;'' @ [NL]
       @ [NL]
       @ [TAB] @ ''private:'' @ [NL]
       @ [TAB, TAB] @ ''void run();'' @ [NL]
       @ [NL]
       @ [TAB] @ ''private:'' @ [NL]
       @ [TAB, TAB] @ ''int speed;'' @ [NL]
       @ [NL]
       @ [TAB] @ ''};'' @ [NL]
       @ ''}'' @ [NL]
   \<and> header_text (Some ''demo'') (Some ''core'')
      ((CClass_init ''Engine'')\<lparr>private_functions := [CFunction_init ''tick'' None]\<rparr>)
     = ''#pragma once'' @ [NL]
       @ [NL] @ ''namespace demo::core'' @ [NL]
       @ ''{'' @ [NL]
       @ [TAB] @ ''class Engine'' @ [NL]
       @ [TAB] @ ''{'' @ [NL]
       @ [TAB] @ ''private:'' @ [NL]
       @ [NL]
       @ [TAB] @ ''};'' @ [NL]
       @ ''}'' @ [NL]
   \<and> header_text (Some ''demo'') (Some ''core'')
      ((CClass_init ''Engine'')\<lparr>private_functions := [CFunction_init ''tick'' None]\<rparr>)
     = header_text (Some ''demo'') (Some ''core'')
      ((CClass_init ''Engine'')
         \<lparr>private_functions := [CFunction_init ''a'' None, CFunction_init ''b'' (Some ''c'')]\<rparr>)
   \<and> fst (generate_header_file
      ((CClass_init ''Engine'')
         \<lparr>public_functions := [CFunction_init ''run'' None],
          private_functions := [CFunction_init ''tick'' None],
          public_variables := [''int speed''],
          private_variables := [''int secret'', ''bool dirty'']\<rparr>) core_world) = Returned
   \<and> fs (snd (snd (generate_header_file
      ((CClass_init ''Engine'')
         \<lparr>public_functions := [CFunction_init ''run'' None],
          private_functions := [CFunction_init ''tick'' None],
          public_variables := [''int speed''],
          private_variables := [''int secret'', ''bool dirty'']\<rparr>) core_world))) [''home'', ''Engine.h'']
     = Some (File (header_text (Some ''demo'') (Some ''core'')
      ((CClass_init ''Engine'')
         \<lparr>public_functions := [CFunction_init ''run'' None],
          private_functions := [CFunction_init ''tick'' None],
          public_variables := [''int speed''],
          private_variables := [''int secret'', ''bool dirty'']\<rparr>)))"
proof -
  let ?c = "(CClass_init ''Engine'')
         \<lparr>public_functions := [CFunction_init ''run'' None],
          private_functions := [CFunction_init ''tick'' None],
          public_variables := [''int speed''],
          private_variables := [''int secret'', ''bool dirty'']\<rparr>"
  let ?d = "(CClass_init ''Engine'')\<lparr>private_functions := [CFunction_init ''tick'' None]\<rparr>"
  let ?pf = "[CFunction_init ''a'' None, CFunction_init ''b'' (Some ''c'')]"
  note t = private_sections_draw_from_public [of ?c "Some ''demo''" "Some ''core''" "[]" "[]"]
  note u = private_sections_draw_from_public [of ?d "Some ''demo''" "Some ''core''" ?pf "[]"]
  have "private_functions ?c \<noteq> []"
    by simp
  with t have "header_text (Some ''demo'') (Some ''core'') ?c =
        header_open (Some ''demo'') (Some ''core'') ?c
        @ public_function_section ?c @ public_variable_section ?c
        @ access_marker ''private''
        @ concat (map get_header_function_declaration (public_functions ?c))
        @ private_variable_section ?c @ class_end"
    by blast
  then have a: "header_text (Some ''demo'') (Some ''core'') ?c
     = ''#pragma once'' @ [NL]
       @ [NL] @ ''namespace demo::core'' @ [NL]
       @ ''{'' @ [NL]
       @ [TAB] @ ''class Engine'' @ [NL]
       @ [TAB] @ ''{'' @ [NL]
       @ [TAB] @ ''public:'' @ [NL]
       @ [TAB, TAB] @ ''void run();'' @ [NL]
       @ [NL]
       @ [TAB] @ ''public:'' @ [NL]
       @ [TAB, TAB] @ ''int speed;'' @ [NL]
       @ [NL]
       @ [TAB] @ ''private:'' @ [NL]
       @ [TAB, TAB] @ ''void run();'' @ [NL]
       @ [NL]
       @ [TAB] @ ''private:'' @ [NL]
       @ [TAB, TAB] @ ''int speed;'' @ [NL]
       @ [NL]
       @ [TAB] @ ''};'' @ [NL]
       @ ''}'' @ [NL]"
    by (simp add: layout_defs CClass_init_def CFunction_init_def
        get_header_function_declaration_def)
  have "private_variables ?c \<noteq> []"
    by simp
  with t have "header_text (Some ''demo'') (Some ''core'') ?c =
        header_open (Some ''demo'') (Some ''core'') ?c
        @ public_function_section ?c @ public_variable_section ?c
        @ private_function_section ?c
        @ access_marker ''private''
        @ concat (map variable_line (public_variables ?c))
        @ class_end"
    by blast
  then have a2: "header_text (Some ''demo'') (Some ''core'') ?c
     = ''#pragma once'' @ [NL]
       @ [NL] @ ''namespace demo::core'' @ [NL]
       @ ''{'' @ [NL]
       @ [TAB] @ ''class Engine'' @ [NL]
       @ [TAB] @ ''{'' @ [NL]
       @ [TAB] @ ''public:'' @ [NL]
       @ [TAB, TAB] @ ''void run();'' @ [NL]
       @ [NL]
       @ [TAB] @ ''public:'' @ [NL]
       @ [TAB, TAB] @ ''int speed;'' @ [NL]
       @ [NL]
       @ [TAB] @ ''private:'' @ [NL]
       @ [TAB, TAB] @ ''void run();'' @ [NL]
       @ [NL]
       @ [TAB] @ ''private:'' @ [NL]
       @ [TAB, TAB] @ ''int speed;'' @ [NL]
       @ [NL]
       @ [TAB] @ ''};'' @ [NL]
       @ ''}'' @ [NL]"
    by (simp add: layout_defs CClass_init_def CFunction_init_def
        get_header_function_declaration_def)
  have "private_functions ?d \<noteq> []"
    by simp
  with u have "header_text (Some ''demo'') (Some ''core'') ?d =
        header_open (Some ''demo'') (Some ''core'') ?d
        @ public_function_section ?d @ public_variable_section ?d
        @ access_marker ''private''
        @ concat (map get_header_function_declaration (public_functions ?d))
        @ private_variable_section ?d @ class_end"
    by blast
  then have b: "header_text (Some ''demo'') (Some ''core'') ?d
     = ''#pragma once'' @ [NL]
       @ [NL] @ ''namespace demo::core'' @ [NL]
       @ ''{'' @ [NL]
       @ [TAB] @ ''class Engine'' @ [NL]
       @ [TAB] @ ''{'' @ [NL]
       @ [TAB] @ ''private:'' @ [NL]
       @ [NL]
       @ [TAB] @ ''};'' @ [NL]
       @ ''}'' @ [NL]"
    by (simp add: layout_defs CClass_init_def CFunction_init_def)
  have "(?pf = [] \<longleftrightarrow> private_functions ?d = []) \<and> ([] = [] \<longleftrightarrow> private_variables ?d = [])"
    by (simp add: CClass_init_def)
  with u have "header_text (Some ''demo'') (Some ''core'')
        (?d\<lparr>private_functions := ?pf, private_variables := []\<rparr>)
      = header_text (Some ''demo'') (Some ''core'') ?d"
    by blast
  then have c: "header_text (Some ''demo'') (Some ''core'') ?d
     = header_text (Some ''demo'') (Some ''core'') ((CClass_init ''Engine'')\<lparr>private_functions := ?pf\<rparr>)"
    by (simp add: CClass_init_def)
  let ?g = "generate_header_file ?c core_world"
  have n: "class_name ?c @ ''.h'' = ''Engine.h''"
    by (simp add: CClass_init_def)
  have e: "?g = (Returned, ?c, snd (snd ?g))"
    using core_world_lookup_Engine_h(1,2) by (rule generate_header_file_runs [of core_world ?c, unfolded n])
  note g = private_sections_draw_from_public
    [of ?c "Some ''demo''" "Some ''core''" "[]" "[]" core_world ?c "snd (snd ?g)"]
  from g e obtain p where "lookup core_world (class_name ?c @ ''.h'') = Inr p"
    and w': "snd (snd ?g) = core_world\<lparr>fs := (fs core_world)(p \<mapsto>
       File (header_text (g_project_name core_world) (g_current_module core_world) ?c))\<rparr>"
    by blast
  then have p: "p = [''home'', ''Engine.h'']"
    using core_world_lookup_Engine_h(1) n by simp
  have ff: "fs (snd (snd ?g)) [''home'', ''Engine.h'']
      = Some (File (header_text (Some ''demo'') (Some ''core'') ?c))"
    by (subst w') (simp add: p core_world_lookup_Engine_h(3,4))
  have fr: "fst ?g = Returned"
    by (subst e) simp
  from a a2 b c fr ff show ?thesis
    by blast
qed

subsection \<open>The entity tree is not touched by generation\<close>

lemma generate_header_file_self: "generate_header_file c w = (r, c', w') \<Longrightarrow> c' = c"
  by (auto simp: generate_header_file_def split: prod.splits)

lemma generate_source_file_self: "generate_source_file c w = (r, c', w') \<Longrightarrow> c' = c"
  by (auto simp: generate_source_file_def split: prod.splits)

lemma generate_class_files_self: "generate_class_files c w = (r, c', w') \<Longrightarrow> c' = c"
  by (auto simp: generate_class_files_def split: prod.splits outcome.splits
      dest: generate_header_file_self generate_source_file_self)

lemma generate_classes_loop_self: "generate_classes_loop cs w = (r, cs', w') \<Longrightarrow> cs' = cs"
proof (induction cs arbitrary: w r cs' w')
  case Nil
  then show ?case by simp
next
  case (Cons c cs)
  obtain r1 c1 w1 where g: "generate_class_files c w = (r1, c1, w1)"
    by (cases "generate_class_files c w") auto
  then have c1: "c1 = c"
    by (rule generate_class_files_self)
  show ?case
  proof (cases r1)
    case Returned
    obtain r2 cs2 w2 where l: "generate_classes_loop cs w1 = (r2, cs2, w2)"
      by (cases "generate_classes_loop cs w1") auto
    then have "cs2 = cs"
      by (rule Cons.IH)
    with Cons.prems g l Returned c1 show ?thesis by simp
  next
    case (Raised e)
    with Cons.prems g c1 show ?thesis by simp
  qed
qed

lemma generate_cpp_source_files_self:
  "generate_cpp_source_files m w = (r, m', w') \<Longrightarrow> m' = m"
  by (auto simp: generate_cpp_source_files_def Let_def
      split: prod.splits outcome.splits dest: generate_classes_loop_self)

lemma generate_modules_loop_self: "generate_modules_loop ms w = (r, ms', w') \<Longrightarrow> ms' = ms"
proof (induction ms arbitrary: w r ms' w')
  case Nil
  then show ?case by simp
next
  case (Cons m ms)
  obtain r1 m1 w1 where g: "generate_cpp_source_files m w = (r1, m1, w1)"
    by (cases "generate_cpp_source_files m w") auto
  then have m1: "m1 = m"
    by (rule generate_cpp_source_files_self)
  show ?case
  proof (cases r1)
    case Returned
    obtain r2 ms2 w2 where l: "generate_modules_loop ms w1 = (r2, ms2, w2)"
      by (cases "generate_modules_loop ms w1") auto
    then have "ms2 = ms"
      by (rule Cons.IH)
    with Cons.prems g l Returned m1 show ?thesis by simp
  next
    case (Raised e)
    with Cons.prems g m1 show ?thesis by simp
  qed
qed

lemma generate_source_files_self:
  "generate_source_files p w = (r, p', w') \<Longrightarrow> p' = p"
  by (auto simp: generate_source_files_def split: prod.splits dest: generate_modules_loop_self)

text \<open>
  Claim C9. \<^verbatim>\<open>generate_project\<close> leaves the project as it found it, however it ends
  (on success, on a reported failure, on an exception of the operating system): the
  project, its modules and their classes are handed back equal to what was passed in.
\<close>

theorem generate_project_keeps_entity_tree:
  "fst (snd (generate_project p target w)) = p"
  by (auto simp: generate_project_def Let_def generate_cmake_file_def
      split: prod.splits outcome.splits dest: generate_source_files_self)

theorem generate_project_keeps_entity_tree_witness:
  "fst (generate_project scenario_project ''/tmp'' example_world) = Returned
   \<and> fst (snd (generate_project scenario_project ''/tmp'' example_world)) = scenario_project
   \<and> fs (snd (snd (generate_project scenario_project ''/tmp'' example_world)))
        [''tmp'', ''demo'', ''core''] = Some Dir"
proof -
  let ?g = "generate_project scenario_project ''/tmp'' example_world"
  have "fst ?g = Returned \<and> fs (snd (snd ?g)) [''tmp'', ''demo'', ''core''] = Some Dir"
    by (simp add: scenario_project_def example_world_def gen_defs os_defs Let_def
        CProject_init_def CModule_init_def CClass_init_def CFunction_init_def)
  then show ?thesis
    using generate_project_keeps_entity_tree [of scenario_project "''/tmp''" example_world]
    by simp
qed

subsection \<open>The generated source file\<close>

text \<open>
  Claim C8. The text written to the source file is exactly an include of
  \<^verbatim>\<open>{class_name}.h\<close>, the opening of the namespace and its closing brace: nothing of
  the functions or variables of the class occurs in it. The header opens the same
  namespace construct, with the same two names. When \<^verbatim>\<open>__generate_source_file\<close>
  returns, the file \<^verbatim>\<open>{class_name}.cpp\<close> holds this text and nothing else has changed.
\<close>

theorem source_file_is_include_and_empty_namespace:
  "source_text project module c =
     ''#include '' @ [DQUOTE] @ class_name c @ ''.h'' @ [DQUOTE] @ [NL, NL]
     @ namespace_begin (format_global project) (format_global module)
     @ ''}'' @ [NL]
   \<and> header_text project module c =
     PRAGMA_ONCE_DEFINITION @ [NL]
     @ namespace_begin (format_global project) (format_global module)
     @ class_begin (class_name c)
     @ public_function_section c @ public_variable_section c
     @ private_function_section c @ private_variable_section c
     @ class_end
   \<and> (generate_source_file c w = (Returned, c', w') \<longrightarrow>
        (\<exists>p. lookup w (class_name c @ ''.cpp'') = Inr p
           \<and> w' = w\<lparr>fs := (fs w)(p \<mapsto> File (source_text (g_project_name w) (g_current_module w) c))\<rparr>))"
proof -
  have "generate_source_file c w = (Returned, c', w') \<longrightarrow>
        (\<exists>p. lookup w (class_name c @ ''.cpp'') = Inr p
           \<and> w' = w\<lparr>fs := (fs w)(p \<mapsto> File (source_text (g_project_name w) (g_current_module w) c))\<rparr>)"
    by (auto simp: generate_source_file_def source_text_def with_open_w_Returned split: prod.splits)
  then show ?thesis
    using source_text_layout [of project module c] header_text_layout [of project module c]
    by (simp add: header_open_def)
qed

theorem source_file_is_include_and_empty_namespace_witness:
  "source_text (Some ''demo'') (Some ''core'') client_app_class =
     ''#include '' @ [DQUOTE] @ ''client_app.h'' @ [DQUOTE] @ [NL]
     @ [NL] @ ''namespace demo::core'' @ [NL]
     @ ''{'' @ [NL]
     @ ''}'' @ [NL]
   \<and> generate_source_file client_app_class
        (example_world\<lparr>g_project_name := Some ''demo'', g_current_module := Some ''core''\<rparr>)
     = (Returned, client_app_class,
        example_world
          \<lparr>g_project_name := Some ''demo'', g_current_module := Some ''core'',
           fs := (fs example_world)
             ([''home'', ''client_app.cpp''] \<mapsto>
                File (''#include '' @ [DQUOTE] @ ''client_app.h'' @ [DQUOTE] @ [NL]
                      @ [NL] @ ''namespace demo::core'' @ [NL]
                      @ ''{'' @ [NL]
                      @ ''}'' @ [NL]))\<rparr>)"
proof -
  let ?w = "example_world\<lparr>g_project_name := Some ''demo'', g_current_module := Some ''core''\<rparr>"
  let ?g = "generate_source_file client_app_class ?w"
  have n: "class_name client_app_class = ''client_app''"
    by (simp add: client_app_class_def CClass_init_def)
  have l: "lookup ?w ''client_app.cpp'' = Inr [''home'', ''client_app.cpp'']"
    by (simp add: os_defs example_world_def)
  have f: "fs ?w [''home'', ''client_app.cpp''] \<noteq> Some Dir"
    by (simp add: example_world_def)
  have r: "fst ?g = Returned"
    using l f by (simp add: generate_source_file_def with_open_w_def n split: option.splits node.splits)
  have s: "fst (snd ?g) = client_app_class"
    by (rule generate_source_file_self [of client_app_class ?w "fst ?g" _ "snd (snd ?g)"]) simp
  have e: "?g = (Returned, client_app_class, snd (snd ?g))"
    using r s by (metis prod.collapse)
  note t = source_file_is_include_and_empty_namespace
    [of "Some ''demo''" "Some ''core''" client_app_class ?w client_app_class "snd (snd ?g)"]
  from t have a: "source_text (Some ''demo'') (Some ''core'') client_app_class =
     ''#include '' @ [DQUOTE] @ ''client_app.h'' @ [DQUOTE] @ [NL]
     @ [NL] @ ''namespace demo::core'' @ [NL] @ ''{'' @ [NL] @ ''}'' @ [NL]"
    by (simp add: n namespace_begin_def format_global_def)
  from t e obtain p where "lookup ?w (class_name client_app_class @ ''.cpp'') = Inr p"
    and w': "snd (snd ?g) = ?w\<lparr>fs := (fs ?w)(p \<mapsto> File (source_text (g_project_name ?w) (g_current_module ?w) client_app_class))\<rparr>"
    by blast
  with l n have p: "p = [''home'', ''client_app.cpp'']"
    by simp
  have "?g = (Returned, client_app_class, snd (snd ?g))"
    by (rule e)
  also have "snd (snd ?g) = ?w\<lparr>fs := (fs example_world)([''home'', ''client_app.cpp''] \<mapsto>
      File (source_text (Some ''demo'') (Some ''core'') client_app_class))\<rparr>"
    using w' p by simp
  finally have b: "?g = (Returned, client_app_class,
     ?w\<lparr>fs := (fs example_world)([''home'', ''client_app.cpp''] \<mapsto>
      File (source_text (Some ''demo'') (Some ''core'') client_app_class))\<rparr>)" .
  from a b show ?thesis
    by simp
qed

subsection \<open>The reported failures of generation\<close>

lemma generate_header_file_stdout:
  "generate_header_file c w = (r, c', w') \<Longrightarrow> stdout w' = stdout w"
  by (auto simp: generate_header_file_def split: prod.splits dest: with_open_w_frame(4))

lemma generate_source_file_stdout:
  "generate_source_file c w = (r, c', w') \<Longrightarrow> stdout w' = stdout w"
  by (auto simp: generate_source_file_def split: prod.splits dest: with_open_w_frame(4))

lemma generate_class_files_stdout:
  assumes "generate_class_files c w = (r, c', w')"
  shows "stdout w' = stdout w"
proof -
  obtain r1 c1 w1 where h: "generate_header_file c w = (r1, c1, w1)"
    by (cases "generate_header_file c w") auto
  have s1: "stdout w1 = stdout w"
    using h by (rule generate_header_file_stdout)
  show ?thesis
  proof (cases r1)
    case Returned
    with assms h have "generate_source_file c1 w1 = (r, c', w')"
      by (simp add: generate_class_files_def)
    then have "stdout w' = stdout w1"
      by (rule generate_source_file_stdout)
    with s1 show ?thesis by simp
  next
    case (Raised e)
    with assms h s1 show ?thesis
      by (simp add: generate_class_files_def)
  qed
qed

lemma generate_classes_loop_stdout:
  "generate_classes_loop cs w = (r, cs', w') \<Longrightarrow> stdout w' = stdout w"
proof (induction cs arbitrary: w r cs' w')
  case Nil
  then show ?case by simp
next
  case (Cons c cs)
  obtain r1 c1 w1 where g: "generate_class_files c w = (r1, c1, w1)"
    by (cases "generate_class_files c w") auto
  then have s1: "stdout w1 = stdout w"
    by (rule generate_class_files_stdout)
  show ?case
  proof (cases r1)
    case Returned
    obtain r2 cs2 w2 where l: "generate_classes_loop cs w1 = (r2, cs2, w2)"
      by (cases "generate_classes_loop cs w1") auto
    then have "stdout w2 = stdout w1"
      by (rule Cons.IH)
    with Cons.prems g l Returned s1 show ?thesis by simp
  next
    case (Raised e)
    with Cons.prems g s1 show ?thesis by simp
  qed
qed

lemma generate_cpp_source_files_stdout:
  assumes "generate_cpp_source_files m w = (r, m', w')"
  shows "stdout w' = stdout w"
proof -
  let ?w0 = "w\<lparr>g_current_module := Some (mod_name m)\<rparr>"
  obtain r1 w1 where a: "os_mkdir (mod_name m) ?w0 = (r1, w1)"
    by (cases "os_mkdir (mod_name m) ?w0") auto
  then have s1: "stdout w1 = stdout w"
    using os_mkdir_frame(4) [OF a] by simp
  obtain r2 w2 where b: "os_chdir (mod_name m) w1 = (r2, w2)"
    by (cases "os_chdir (mod_name m) w1") auto
  then have s2: "stdout w2 = stdout w"
    using os_chdir_frame(4) [OF b] s1 by simp
  obtain r3 cs3 w3 where c: "generate_classes_loop (classes m) w2 = (r3, cs3, w3)"
    by (cases "generate_classes_loop (classes m) w2") auto
  then have s3: "stdout w3 = stdout w"
    using generate_classes_loop_stdout [OF c] s2 by simp
  obtain r4 w4 where d: "os_chdir ''..'' w3 = (r4, w4)"
    by (cases "os_chdir ''..'' w3") auto
  then have s4: "stdout w4 = stdout w"
    using os_chdir_frame(4) [OF d] s3 by simp
  from assms a b c d s1 s2 s3 s4 show ?thesis
    by (auto simp: generate_cpp_source_files_def Let_def split: outcome.splits)
qed

lemma generate_modules_loop_stdout:
  "generate_modules_loop ms w = (r, ms', w') \<Longrightarrow> stdout w' = stdout w"
proof (induction ms arbitrary: w r ms' w')
  case Nil
  then show ?case by simp
next
  case (Cons m ms)
  obtain r1 m1 w1 where g: "generate_cpp_source_files m w = (r1, m1, w1)"
    by (cases "generate_cpp_source_files m w") auto
  then have s1: "stdout w1 = stdout w"
    by (rule generate_cpp_source_files_stdout)
  show ?case
  proof (cases r1)
    case Returned
    obtain r2 ms2 w2 where l: "generate_modules_loop ms w1 = (r2, ms2, w2)"
      by (cases "generate_modules_loop ms w1") auto
    then have "stdout w2 = stdout w1"
      by (rule Cons.IH)
    with Cons.prems g l Returned s1 show ?thesis by simp
  next
    case (Raised e)
    with Cons.prems g s1 show ?thesis by simp
  qed
qed

lemma generate_source_files_stdout:
  "generate_source_files p w = (r, p', w') \<Longrightarrow> stdout w' = stdout w"
  by (auto simp: generate_source_files_def split: prod.splits dest: generate_modules_loop_stdout)

text \<open>The two reported failures of \<^verbatim>\<open>generate_project\<close>, and what is left when neither occurs.\<close>

lemma generate_project_target_missing:
  assumes "\<not> isdir w (abspath w target)"
  shows "generate_project p target w =
     (Returned, p,
      w\<lparr>g_project_name := Some (project_name p),
        stdout := stdout w @ [''Error> target directory does not exist'']\<rparr>)"
  using assms by (simp add: generate_project_def Let_def print_def)

lemma generate_project_already_exists:
  assumes "lookup w (abspath w target) = Inr d" "fs w d = Some Dir"
    "isdir (w\<lparr>cwd := d\<rparr>) (project_name p)"
  shows "generate_project p target w =
     (Returned, p,
      w\<lparr>g_project_name := Some (project_name p), cwd := d,
        stdout := stdout w @ [''Error> project directory already exists'']\<rparr>)"
proof -
  let ?w = "w\<lparr>g_project_name := Some (project_name p)\<rparr>"
  have i: "isdir ?w (abspath ?w target)"
    using assms(1,2) by (simp add: isdir_iff)
  have c: "os_chdir (abspath ?w target) ?w = (Returned, ?w\<lparr>cwd := d\<rparr>)"
    using assms(1,2) by (simp add: os_chdir_Returned)
  have "isdir (?w\<lparr>cwd := d\<rparr>) (project_name p) = isdir (w\<lparr>cwd := d\<rparr>) (project_name p)"
    by (simp add: isdir_def lookup_def start_dir_def split: sum.splits)
  with assms(3) have e: "isdir (?w\<lparr>cwd := d\<rparr>) (project_name p)"
    by simp
  show ?thesis
    using i c e by (simp add: generate_project_def Let_def print_def)
qed

lemma generate_project_proceeds:
  assumes "lookup w (abspath w target) = Inr d" "fs w d = Some Dir"
    "\<not> isdir (w\<lparr>cwd := d\<rparr>) (project_name p)"
    "generate_project p target w = (r, p', w')"
  shows "stdout w' = stdout w"
proof -
  let ?w = "w\<lparr>g_project_name := Some (project_name p)\<rparr>"
  let ?v = "?w\<lparr>cwd := d\<rparr>"
  have i: "isdir ?w (abspath ?w target)"
    using assms(1,2) by (simp add: isdir_iff)
  have c: "os_chdir (abspath ?w target) ?w = (Returned, ?v)"
    using assms(1,2) by (simp add: os_chdir_Returned)
  have "isdir ?v (project_name p) = isdir (w\<lparr>cwd := d\<rparr>) (project_name p)"
    by (simp add: isdir_def lookup_def start_dir_def split: sum.splits)
  with assms(3) have e: "\<not> isdir ?v (project_name p)"
    by simp
  obtain r1 w1 where a: "os_mkdir (project_name p) ?v = (r1, w1)"
    by (cases "os_mkdir (project_name p) ?v") auto
  have s1: "stdout w1 = stdout w"
    using os_mkdir_frame(4) [OF a] by simp
  obtain r2 w2 where b: "os_chdir (project_name p) w1 = (r2, w2)"
    by (cases "os_chdir (project_name p) w1") auto
  have s2: "stdout w2 = stdout w"
    using os_chdir_frame(4) [OF b] s1 by simp
  obtain r3 p3 w3 where g: "generate_source_files p w2 = (r3, p3, w3)"
    by (cases "generate_source_files p w2") auto
  have s3: "stdout w3 = stdout w"
    using generate_source_files_stdout [OF g] s2 by simp
  from assms(4) i c e a b g s1 s2 s3 show ?thesis
    by (auto simp: generate_project_def Let_def generate_cmake_file_def split: outcome.splits)
qed



text \<open>
  Claim C10. Whenever \<^verbatim>\<open>generate_project\<close> ends with the already-exists
  message, it has returned normally, the global \<^verbatim>\<open>g_project_name\<close> holds the name of
  the project, and the working directory is the directory the resolved target path
  names, in which a directory named after the project exists: both are left as set,
  not restored.
\<close>

theorem already_exists_leaves_globals_and_cwd_changed:
  assumes "generate_project p target w = (r, p', w')"
    and "stdout w' = stdout w @ [''Error> project directory already exists'']"
  shows "r = Returned
    \<and> g_project_name w' = Some (project_name p)
    \<and> lookup w (abspath w target) = Inr (cwd w')
    \<and> fs w (cwd w') = Some Dir
    \<and> isdir (w\<lparr>cwd := cwd w'\<rparr>) (project_name p)"
proof (cases "isdir w (abspath w target)")
  case False
  from generate_project_target_missing [OF False, of p] assms show ?thesis
    by auto
next
  case True
  then obtain d where d: "lookup w (abspath w target) = Inr d" "fs w d = Some Dir"
    by (auto simp: isdir_iff)
  show ?thesis
  proof (cases "isdir (w\<lparr>cwd := d\<rparr>) (project_name p)")
    case True
    from generate_project_already_exists [OF d True] assms(1) d True show ?thesis
      by auto
  next
    case False
    from generate_project_proceeds [OF d False assms(1)] assms(2) show ?thesis
      by simp
  qed
qed

theorem already_exists_leaves_globals_and_cwd_changed_witness:
  "g_project_name example_world = None
   \<and> cwd example_world = [''home'']
   \<and> g_project_name (snd (snd (generate_project (seed_project ''old'') ''/tmp'' example_world)))
       = Some ''old''
   \<and> cwd (snd (snd (generate_project (seed_project ''old'') ''/tmp'' example_world))) = [''tmp'']
   \<and> fst (generate_project (seed_project ''old'') ''/tmp'' example_world) = Returned"
proof -
  let ?g = "generate_project (seed_project ''old'') ''/tmp'' example_world"
  have n2: "project_name (seed_project ''old'') = ''old''"
    by (simp add: seed_project_def CProject_init_def)
  have at: "abspath example_world ''/tmp'' = ''/tmp''"
    by (simp add: os_defs example_world_def Let_def)
  have "lookup example_world (abspath example_world ''/tmp'') = Inr [''tmp'']"
    "fs example_world [''tmp''] = Some Dir"
    "isdir (example_world\<lparr>cwd := [''tmp'']\<rparr>) (project_name (seed_project ''old''))"
    by (simp_all add: at lookup_tmp fs_tmp isdir_old n2)
  then have g: "?g = (Returned, seed_project ''old'',
      example_world\<lparr>g_project_name := Some (project_name (seed_project ''old'')), cwd := [''tmp''],
        stdout := stdout example_world @ [''Error> project directory already exists'']\<rparr>)"
    by (rule generate_project_already_exists)
  then have out: "stdout (snd (snd ?g)) = stdout example_world @ [''Error> project directory already exists'']"
    by simp
  have e: "?g = (fst ?g, fst (snd ?g), snd (snd ?g))"
    by simp
  note t = already_exists_leaves_globals_and_cwd_changed [OF e out]
  then have "lookup example_world ''/tmp'' = Inr (cwd (snd (snd ?g)))"
    by (simp add: at)
  then have "cwd (snd (snd ?g)) = [''tmp'']"
    by (simp add: lookup_tmp)
  with t show ?thesis
    by (simp add: n2 example_world_def)
qed

subsection \<open>The namespace field\<close>

lemma generate_project_ignores_cppnamespace:
  "generate_project (p\<lparr>cppnamespace := ns\<rparr>) target w =
     (case generate_project p target w of (r, p', w') \<Rightarrow> (r, p'\<lparr>cppnamespace := ns\<rparr>, w'))"
  by (simp add: generate_project_def generate_source_files_def generate_cmake_file_def Let_def
      split: prod.splits outcome.splits)

text \<open>
  Claim C1, evaluated on the code: for the project \<^verbatim>\<open>demo\<close> constructed with the
  explicit namespace \<^verbatim>\<open>ns\<close>, with the module \<^verbatim>\<open>core\<close> and the class
  \<^verbatim>\<open>Engine\<close>, the generated header and source open \<^verbatim>\<open>namespace demo::core\<close>,
  from the name of the project, and not \<^verbatim>\<open>ns::core\<close>.
\<close>

theorem namespace_ignores_cppnamespace_example:
  "cppnamespace scenario_project = ''ns''
   \<and> (case generate_project scenario_project ''/tmp'' example_world of
        (r, p', w') \<Rightarrow>
          r = Returned
          \<and> fs w' [''tmp'', ''demo'', ''core'', ''Engine.h''] =
              Some (File (''#pragma once'' @ [NL]
                          @ [NL] @ ''namespace demo::core'' @ [NL]
                          @ ''{'' @ [NL]
                          @ [TAB] @ ''class Engine'' @ [NL]
                          @ [TAB] @ ''{'' @ [NL]
                          @ [TAB] @ ''public:'' @ [NL]
                          @ [TAB, TAB] @ ''void run();'' @ [NL]
                          @ [NL]
                          @ [TAB] @ ''};'' @ [NL]
                          @ ''}'' @ [NL]))
          \<and> fs w' [''tmp'', ''demo'', ''core'', ''Engine.cpp''] =
              Some (File (''#include '' @ [DQUOTE] @ ''Engine.h'' @ [DQUOTE] @ [NL]
                          @ [NL] @ ''namespace demo::core'' @ [NL]
                          @ ''{'' @ [NL]
                          @ ''}'' @ [NL])))"
  by (simp add: scenario_project_def example_world_def gen_defs os_defs Let_def
      CProject_init_def CModule_init_def CClass_init_def CFunction_init_def
      header_body_def source_body_def f_write_def get_header_function_declaration_def
      PRAGMA_ONCE_DEFINITION_def format_global_def)

end
